theory Spec2Isabelle
  imports Complex_Main "HOL-Library.AList"
begin

section \<open>JavaScript values\<close>

text \<open>
  A JavaScript number is modelled as an exact rational: the scorers only add, multiply by
  fixed constants, divide, floor and round page counts.  Page counts are numbers like any
  other, so a negative count is a value of the type even though the browser never
  reports one.
\<close>

type_synonym number = rat

text \<open>\<^verbatim>\<open>Math.round\<close>: the nearest integer, a fraction of exactly one half going up.\<close>

definition Math_round :: "number \<Rightarrow> int" where
  "Math_round x = \<lfloor>x + 1 / 2\<rfloor>"

definition Math_floor :: "number \<Rightarrow> number" where
  "Math_floor x = of_int \<lfloor>x\<rfloor>"

text \<open>
  An object with string keys is an association list in insertion order, which is the
  order \<^verbatim>\<open>Object.values\<close> and \<^verbatim>\<open>Object.entries\<close> follow.  Assigning to
  a property keeps its position when the key exists and appends it otherwise
  (\<^const>\<open>AList.update\<close>).
\<close>

type_synonym 'a js_object = "(string \<times> 'a) list"

definition Object_values :: "'a js_object \<Rightarrow> 'a list" where
  "Object_values obj = map snd obj"

definition Object_keys :: "'a js_object \<Rightarrow> string list" where
  "Object_keys obj = map fst obj"

text \<open>\<^verbatim>\<open>xs.reduce((sum, score) => sum + score, 0)\<close>\<close>

definition reduce_sum :: "number list \<Rightarrow> number" where
  "reduce_sum xs = foldl (\<lambda>sum score. sum + score) 0 xs"

section \<open>The principle-score object\<close>

text \<open>
  The constructors of \<^verbatim>\<open>ComprehensiveTestabilityAnalyzer\<close>,
  \<^verbatim>\<open>AITestabilityScorer\<close> and \<^verbatim>\<open>TestabilityScorer\<close> all create the
  same object: the ten principles, in this order, each at 0.
\<close>

definition principleNames :: "string list" where
  "principleNames =
     [''observability'', ''controllability'', ''algorithmicSimplicity'',
      ''algorithmicTransparency'', ''algorithmicStability'', ''explainability'',
      ''unbugginess'', ''smallness'', ''decomposability'', ''similarity'']"

definition initial_principles :: "number js_object" where
  "initial_principles = map (\<lambda>k. (k, 0)) principleNames"

text \<open>
  A complete map of principle scores: every required principle has exactly one entry and
  there is no other entry.
\<close>

definition complete_map :: "number js_object \<Rightarrow> bool" where
  "complete_map obj \<longleftrightarrow>
     distinct (Object_keys obj) \<and> set (Object_keys obj) = set principleNames"

section \<open>Aggregation\<close>

text \<open>
  \<^verbatim>\<open>runCompleteAnalysis\<close>, comprehensive-testability-analyzer.js lines 710-712:
  the sum of the values of \<^verbatim>\<open>this.principles\<close> is divided by the literal 10.
\<close>

definition overallScore_complete :: "number js_object \<Rightarrow> int" where
  "overallScore_complete principles =
     Math_round (reduce_sum (Object_values principles) / 10)"

text \<open>
  \<^verbatim>\<open>calculateOverallScore\<close>, tests/testability-principles.spec.js lines 713-715,
  and the same expression in \<^verbatim>\<open>runQuickAssessment\<close> and
  \<^verbatim>\<open>runAIAssessment\<close>: the sum is divided by the number of values.  For an
  object without any value the quotient is \<^verbatim>\<open>0 / 0\<close>, which is
  \<^verbatim>\<open>NaN\<close>, and so is its rounding: \<^const>\<open>None\<close>.
\<close>

definition calculateOverallScore :: "number js_object \<Rightarrow> int option" where
  "calculateOverallScore scores_obj =
     (let scores = Object_values scores_obj in
      if length scores = 0 then None
      else Some (Math_round (reduce_sum scores / of_nat (length scores))))"

section \<open>Grades\<close>

text \<open>\<^verbatim>\<open>getGrade\<close> of the comprehensive analyzer and of the quick scorer.\<close>

definition getGrade :: "number \<Rightarrow> string" where
  "getGrade score =
     (if score \<ge> 90 then ''A (Excellent)''
      else if score \<ge> 80 then ''B (Good)''
      else if score \<ge> 70 then ''C (Average)''
      else if score \<ge> 60 then ''D (Below Average)''
      else ''F (Poor)'')"

text \<open>\<^verbatim>\<open>getGrade\<close> of \<^verbatim>\<open>TestabilityScorer\<close>.\<close>

definition getGrade_scorecard :: "number \<Rightarrow> string" where
  "getGrade_scorecard score =
     (if score \<ge> 90 then ''(A)''
      else if score \<ge> 80 then ''(B)''
      else if score \<ge> 70 then ''(C)''
      else if score \<ge> 60 then ''(D)''
      else ''(F)'')"

text \<open>\<^verbatim>\<open>getAIGrade\<close> of the AI scorer, with its band above 95.\<close>

definition getAIGrade :: "number \<Rightarrow> string" where
  "getAIGrade score =
     (if score \<ge> 95 then ''A+ (AI-Optimized)''
      else if score \<ge> 90 then ''A (Excellent for AI)''
      else if score \<ge> 80 then ''B (Good for AI)''
      else if score \<ge> 70 then ''C (Average for AI)''
      else if score \<ge> 60 then ''D (Below AI Standards)''
      else ''F (Not AI-Ready)'')"

text \<open>A complete map whose mean, 74.5, lies halfway between two integers.\<close>

definition example_principles :: "number js_object" where
  "example_principles =
     [(''observability'', 80), (''controllability'', 70), (''algorithmicSimplicity'', 75),
      (''algorithmicTransparency'', 75), (''algorithmicStability'', 75), (''explainability'', 75),
      (''unbugginess'', 75), (''smallness'', 70), (''decomposability'', 75), (''similarity'', 75)]"

section \<open>Awaited values and exceptions\<close>

text \<open>
  An \<^verbatim>\<open>await\<close> on a page query either yields the value or throws.  The thrown
  value carries its \<^verbatim>\<open>message\<close>.  A computation that can throw returns
  \<open>Inl\<close> of the error or \<open>Inr\<close> of its value.
\<close>

datatype js_error = Error string

type_synonym 'a awaited = "js_error + 'a"

definition await :: "'a awaited \<Rightarrow> ('a \<Rightarrow> 'b awaited) \<Rightarrow> 'b awaited" where
  "await m f = (case m of Inl e \<Rightarrow> Inl e | Inr v \<Rightarrow> f v)"

text \<open>\<^verbatim>\<open>try { body } catch (error) { handler }\<close>\<close>

definition try_catch :: "'a awaited \<Rightarrow> (js_error \<Rightarrow> 'a awaited) \<Rightarrow> 'a awaited" where
  "try_catch body handler = (case body of Inl e \<Rightarrow> handler e | Inr v \<Rightarrow> Inr v)"

fun message :: "js_error \<Rightarrow> string" where
  "message (Error m) = m"

text \<open>Truthiness of a string that may be \<^verbatim>\<open>null\<close> or \<^verbatim>\<open>undefined\<close>.\<close>

fun truthy :: "string option \<Rightarrow> bool" where
  "truthy None = False"
| "truthy (Some s) = (s \<noteq> [])"

text \<open>
  The debugger's session table, \<^verbatim>\<open>aiDebugger.debugSessions\<close> of
  ai-debug-config.js, is a \<^verbatim>\<open>Map\<close> from session identifiers to sessions.
  The analyzers only read it, so it is a parameter here.  A lookup
  \<^verbatim>\<open>debugSessions?.get(id)\<close> gives nothing (\<^const>\<open>None\<close>) or a
  session; reading \<^verbatim>\<open>session.networkRequests.length\<close> gives the length, or
  throws when the session has no such array.
\<close>

type_synonym debugSessions = "string \<Rightarrow> number awaited option"

section \<open>The ten analyzers of the comprehensive analyzer\<close>

text \<open>
  Each analyzer reads the page through a fixed sequence of queries.  The record of an
  analyzer holds, in the order of the source and under the names of its local constants,
  what each query yields.
\<close>

subsection \<open>Observability\<close>

record stateData =
  localStorage :: number
  sessionStorage :: number
  cookies :: bool
  readyState :: string

record observability_page =
  obs_stateData :: "stateData awaited"
  obs_dataTestElements :: "number awaited"
  obs_errorElements :: "number awaited"
  obs_visualElements :: "number awaited"

text \<open>The network part, lines 95-101; the session lookup is inside the \<^verbatim>\<open>try\<close>.\<close>

definition networkScore_of :: "string option \<Rightarrow> debugSessions \<Rightarrow> number awaited" where
  "networkScore_of debugSessionId sessions =
     (if truthy debugSessionId then
        (case sessions (the debugSessionId) of
           None \<Rightarrow> Inr 5
         | Some requests \<Rightarrow> await requests (\<lambda>n. Inr (if n > 0 then 15 else 5)))
      else Inr 5)"

definition analyzeObservability_body ::
  "observability_page \<Rightarrow> string option \<Rightarrow> debugSessions \<Rightarrow> number awaited" where
  "analyzeObservability_body page debugSessionId sessions =
     await (obs_stateData page) (\<lambda>stateData.
     let stateScore = (if localStorage stateData > 0 then 8 else 0)
                    + (if sessionStorage stateData > 0 then 7 else 0)
                    + (if cookies stateData then 5 else 0)
                    + (if readyState stateData = ''complete'' then 5 else 0);
         score = 0 + stateScore in
     await (obs_dataTestElements page) (\<lambda>dataTestElements.
     let dataTestScore = min 25 (Math_floor (dataTestElements * (5 / 2)));
         score = score + dataTestScore in
     await (obs_errorElements page) (\<lambda>errorElements.
     let errorScore = (if errorElements > 0 then 20 else 10);
         score = score + errorScore in
     await (obs_visualElements page) (\<lambda>visualElements.
     let visualScore = min 15 (visualElements * 2);
         score = score + visualScore in
     await (networkScore_of debugSessionId sessions) (\<lambda>networkScore.
     let score = score + networkScore in
     Inr score)))))"

definition analyzeObservability ::
  "observability_page \<Rightarrow> string option \<Rightarrow> debugSessions \<Rightarrow> number awaited" where
  "analyzeObservability page debugSessionId sessions =
     try_catch (analyzeObservability_body page debugSessionId sessions) (\<lambda>error. Inr 20)"

subsection \<open>Controllability\<close>

text \<open>
  \<open>ctl_inputFields\<close> is the number of input fields found.  \<open>ctl_fill_roundtrip\<close> is
  the inner \<^verbatim>\<open>try\<close> on the first field: whether the value read back equals the
  value typed, or the error of \<^verbatim>\<open>fill\<close>, \<^verbatim>\<open>inputValue\<close> or
  \<^verbatim>\<open>clear\<close>.  \<open>ctl_reload\<close> is the reload: whether the URL after it equals
  the URL before, or its error.
\<close>

record controllability_page =
  ctl_inputFields :: "nat awaited"
  ctl_fill_roundtrip :: "bool awaited"
  ctl_interactiveElements :: "number awaited"
  ctl_reload :: "bool awaited"
  ctl_buttons :: "number awaited"
  ctl_links :: "number awaited"

definition analyzeControllability_body :: "controllability_page \<Rightarrow> number awaited" where
  "analyzeControllability_body page =
     await (ctl_inputFields page) (\<lambda>inputFields_length.
     let inputScore =
           (if inputFields_length > 0 then
              (case ctl_fill_roundtrip page of
                 Inr same \<Rightarrow> (if same then 30 else 15)
               | Inl error \<Rightarrow> 10)
            else 0);
         score = 0 + inputScore in
     await (ctl_interactiveElements page) (\<lambda>interactiveElements.
     let stateScore = min 25 (interactiveElements * 2);
         score = score + stateScore in
     await (ctl_reload page) (\<lambda>same_url.
     let determinismScore = (if same_url then 25 else 15);
         score = score + determinismScore in
     await (ctl_buttons page) (\<lambda>buttons.
     await (ctl_links page) (\<lambda>links.
     let reliabilityScore = min 20 ((buttons + links) * (3 / 2));
         score = score + reliabilityScore in
     Inr score)))))"

definition analyzeControllability :: "controllability_page \<Rightarrow> number awaited" where
  "analyzeControllability page =
     try_catch (analyzeControllability_body page) (\<lambda>error. Inr 25)"

subsection \<open>Algorithmic simplicity\<close>

record simplicity_page =
  sim_totalElements :: "number awaited"
  sim_forms :: "number awaited"
  sim_buttons :: "number awaited"
  sim_headings :: "number awaited"
  sim_navigation :: "number awaited"

definition analyzeAlgorithmicSimplicity_body :: "simplicity_page \<Rightarrow> number awaited" where
  "analyzeAlgorithmicSimplicity_body page =
     await (sim_totalElements page) (\<lambda>totalElements.
     let clarityScore = (if totalElements > 1000 then 15
                         else if totalElements > 500 then 25
                         else if totalElements > 200 then 30
                         else 35);
         score = 0 + clarityScore in
     await (sim_forms page) (\<lambda>forms.
     await (sim_buttons page) (\<lambda>buttons.
     let complexity = forms + buttons;
         complexityScore = (if complexity < 10 then 35 else if complexity < 20 then 25 else 15);
         score = score + complexityScore in
     await (sim_headings page) (\<lambda>headings.
     await (sim_navigation page) (\<lambda>navigation.
     let predictabilityScore = min 30 ((headings * 3) + (navigation * 10));
         score = score + predictabilityScore in
     Inr score)))))"

definition analyzeAlgorithmicSimplicity :: "simplicity_page \<Rightarrow> number awaited" where
  "analyzeAlgorithmicSimplicity page =
     try_catch (analyzeAlgorithmicSimplicity_body page) (\<lambda>error. Inr 30)"

subsection \<open>Algorithmic transparency\<close>

record transparency_page =
  tra_visibleFeedback :: "number awaited"
  tra_labels :: "number awaited"
  tra_tooltips :: "number awaited"
  tra_consoleErrors :: "number awaited"

definition analyzeAlgorithmicTransparency_body :: "transparency_page \<Rightarrow> number awaited" where
  "analyzeAlgorithmicTransparency_body page =
     await (tra_visibleFeedback page) (\<lambda>visibleFeedback.
     let visibilityScore = min 40 (visibleFeedback * 8);
         score = 0 + visibilityScore in
     await (tra_labels page) (\<lambda>labels.
     await (tra_tooltips page) (\<lambda>tooltips.
     let understandingScore = min 35 ((labels * 3) + (tooltips * 2));
         score = score + understandingScore in
     await (tra_consoleErrors page) (\<lambda>consoleErrors.
     let blackBoxScore = (if consoleErrors = 0 then 25 else if consoleErrors < 3 then 15 else 5);
         score = score + blackBoxScore in
     Inr score))))"

definition analyzeAlgorithmicTransparency :: "transparency_page \<Rightarrow> number awaited" where
  "analyzeAlgorithmicTransparency page =
     try_catch (analyzeAlgorithmicTransparency_body page) (\<lambda>error. Inr 35)"

subsection \<open>Algorithmic stability\<close>

text \<open>
  \<open>sta_dataTestIds\<close> are the \<^verbatim>\<open>data-test\<close> identifiers the quality loop of
  lines 297-306 runs over.
\<close>

record stability_page =
  sta_initialElementCount :: "number awaited"
  sta_reload :: "unit awaited"
  sta_waitForPageReady :: "unit awaited"
  sta_reloadElementCount :: "number awaited"
  sta_dataTestIds :: "string list awaited"
  sta_consistentElements :: "number awaited"

definition dataTestQuality_of :: "string list \<Rightarrow> number" where
  "dataTestQuality_of testIds =
     min 35 (foldl (\<lambda>qualityScore testId.
                      let qualityScore =
                            (if CHR ''-'' \<in> set testId \<or> CHR ''_'' \<in> set testId
                             then qualityScore + 2 else qualityScore) in
                      (if length testId > 5 then qualityScore + 1 else qualityScore))
                   0 testIds)"

definition analyzeAlgorithmicStability_body :: "stability_page \<Rightarrow> number awaited" where
  "analyzeAlgorithmicStability_body page =
     await (sta_initialElementCount page) (\<lambda>initialElementCount.
     await (sta_reload page) (\<lambda>_.
     await (sta_waitForPageReady page) (\<lambda>_.
     await (sta_reloadElementCount page) (\<lambda>reloadElementCount.
     let resilienceScore = (if initialElementCount = reloadElementCount then 35 else 20);
         score = 0 + resilienceScore in
     await (sta_dataTestIds page) (\<lambda>testIds.
     let dataTestQuality = dataTestQuality_of testIds;
         score = score + dataTestQuality in
     await (sta_consistentElements page) (\<lambda>consistentElements.
     let consistencyScore = min 30 (consistentElements * 5);
         score = score + consistencyScore in
     Inr score))))))"

definition analyzeAlgorithmicStability :: "stability_page \<Rightarrow> number awaited" where
  "analyzeAlgorithmicStability page =
     try_catch (analyzeAlgorithmicStability_body page) (\<lambda>error. Inr 40)"

subsection \<open>Explainability\<close>

record explainability_page =
  exp_semanticElements :: "number awaited"
  exp_labeledInputs :: "number awaited"
  exp_actualLabels :: "number awaited"
  exp_altTexts :: "number awaited"
  exp_totalImages :: "number awaited"
  exp_ariaElements :: "number awaited"

definition analyzeExplainability_body :: "explainability_page \<Rightarrow> number awaited" where
  "analyzeExplainability_body page =
     await (exp_semanticElements page) (\<lambda>semanticElements.
     let clarityScore = min 35 (semanticElements * 5);
         score = 0 + clarityScore in
     await (exp_labeledInputs page) (\<lambda>labeledInputs.
     await (exp_actualLabels page) (\<lambda>actualLabels.
     await (exp_altTexts page) (\<lambda>altTexts.
     await (exp_totalImages page) (\<lambda>totalImages.
     let docScore = 0;
         docScore = docScore + min 20 (actualLabels * 4);
         docScore = docScore
           + (if totalImages > 0 then min 15 ((altTexts / totalImages) * 15) else 0);
         score = score + docScore in
     await (exp_ariaElements page) (\<lambda>ariaElements.
     let structureScore = min 30 (ariaElements * 3);
         score = score + structureScore in
     Inr score))))))"

definition analyzeExplainability :: "explainability_page \<Rightarrow> number awaited" where
  "analyzeExplainability page =
     try_catch (analyzeExplainability_body page) (\<lambda>error. Inr 25)"

subsection \<open>Unbugginess\<close>

record unbugginess_page =
  unb_jsErrors :: "number awaited"
  unb_consoleErrors :: "number awaited"
  unb_errorElements :: "number awaited"
  unb_brokenImages :: "number awaited"

definition analyzeUnbugginess_body :: "unbugginess_page \<Rightarrow> number awaited" where
  "analyzeUnbugginess_body page =
     await (unb_jsErrors page) (\<lambda>jsErrors.
     await (unb_consoleErrors page) (\<lambda>consoleErrors.
     let errorDeduction = min 40 ((jsErrors + consoleErrors) * 5);
         errorScore = 40 - errorDeduction in
     await (unb_errorElements page) (\<lambda>errorElements.
     let handlingScore = (if errorElements > 0 then 35 else 20) in
     await (unb_brokenImages page) (\<lambda>brokenImages.
     let robustnessScore = 25 - min 25 (brokenImages * 5);
         totalScore = errorScore + handlingScore + robustnessScore;
         score = max 0 totalScore in
     Inr score))))"

definition analyzeUnbugginess :: "unbugginess_page \<Rightarrow> number awaited" where
  "analyzeUnbugginess page =
     try_catch (analyzeUnbugginess_body page) (\<lambda>error. Inr 60)"

subsection \<open>Smallness\<close>

text \<open>\<open>sma_contentSize\<close> is the length of the page's content.\<close>

record smallness_page =
  sma_totalElements :: "number awaited"
  sma_testableElements :: "number awaited"
  sma_contentSize :: "number awaited"

definition analyzeSmallness_body :: "smallness_page \<Rightarrow> number awaited" where
  "analyzeSmallness_body page =
     await (sma_totalElements page) (\<lambda>totalElements.
     let sizeScore = (if totalElements > 1000 then 10
                      else if totalElements > 500 then 20
                      else if totalElements > 200 then 30
                      else 40);
         score = 0 + sizeScore in
     await (sma_testableElements page) (\<lambda>testableElements.
     let scopeScore = min 35 (testableElements * 3);
         score = score + scopeScore in
     await (sma_contentSize page) (\<lambda>contentSize.
     let managementScore = (if contentSize > 100000 then 10
                            else if contentSize > 50000 then 15
                            else if contentSize > 20000 then 20
                            else 25);
         score = score + managementScore in
     Inr score)))"

definition analyzeSmallness :: "smallness_page \<Rightarrow> number awaited" where
  "analyzeSmallness page =
     try_catch (analyzeSmallness_body page) (\<lambda>error. Inr 45)"

subsection \<open>Decomposability\<close>

record decomposability_page =
  dec_containers :: "number awaited"
  dec_isolatedElements :: "number awaited"
  dec_forms :: "number awaited"
  dec_modules :: "number awaited"

definition analyzeDecomposability_body :: "decomposability_page \<Rightarrow> number awaited" where
  "analyzeDecomposability_body page =
     await (dec_containers page) (\<lambda>containers.
     let separationScore = min 40 (containers * 2);
         score = 0 + separationScore in
     await (dec_isolatedElements page) (\<lambda>isolatedElements.
     await (dec_forms page) (\<lambda>forms.
     let isolationScore = min 35 ((isolatedElements * 2) + (forms * 5));
         score = score + isolationScore in
     await (dec_modules page) (\<lambda>modules.
     let modularScore = min 25 (Math_floor (modules / 3));
         score = score + modularScore in
     Inr score))))"

definition analyzeDecomposability :: "decomposability_page \<Rightarrow> number awaited" where
  "analyzeDecomposability page =
     try_catch (analyzeDecomposability_body page) (\<lambda>error. Inr 50)"

subsection \<open>Similarity\<close>

record standardElements =
  pat_buttons :: number
  pat_forms :: number
  pat_navigation :: number
  pat_headings :: number

record familiarTech =
  html5 :: bool
  css :: bool
  javascript :: bool
  tech_forms :: bool

record conventions =
  header :: bool
  footer :: bool
  main :: bool
  breadcrumbs :: bool

record similarity_page =
  sml_standardElements :: "standardElements awaited"
  sml_familiarTech :: "familiarTech awaited"
  sml_conventions :: "conventions awaited"

definition analyzeSimilarity_body :: "similarity_page \<Rightarrow> number awaited" where
  "analyzeSimilarity_body page =
     await (sml_standardElements page) (\<lambda>standardElements.
     let patternScore = min 40 ((pat_buttons standardElements * 2)
                              + (pat_forms standardElements * 5)
                              + (pat_navigation standardElements * 8)
                              + (pat_headings standardElements * 1));
         score = 0 + patternScore in
     await (sml_familiarTech page) (\<lambda>familiarTech.
     let techScore = (if html5 familiarTech then 10 else 0)
                   + (if css familiarTech then 8 else 0)
                   + (if javascript familiarTech then 7 else 0)
                   + (if tech_forms familiarTech then 10 else 0);
         score = score + techScore in
     await (sml_conventions page) (\<lambda>conventions.
     let conventionScore = (if header conventions then 7 else 0)
                         + (if footer conventions then 5 else 0)
                         + (if main conventions then 8 else 0)
                         + (if breadcrumbs conventions then 5 else 0);
         score = score + conventionScore in
     Inr score)))"

definition analyzeSimilarity :: "similarity_page \<Rightarrow> number awaited" where
  "analyzeSimilarity page =
     try_catch (analyzeSimilarity_body page) (\<lambda>error. Inr 55)"

text \<open>A query that yields a count yields a count that is not negative.\<close>

definition nonneg :: "number awaited \<Rightarrow> bool" where
  "nonneg m = (case m of Inl e \<Rightarrow> True | Inr v \<Rightarrow> 0 \<le> v)"

definition nonneg_patterns :: "standardElements awaited \<Rightarrow> bool" where
  "nonneg_patterns m =
     (case m of Inl e \<Rightarrow> True
      | Inr p \<Rightarrow> 0 \<le> pat_buttons p \<and> 0 \<le> pat_forms p \<and> 0 \<le> pat_navigation p
                 \<and> 0 \<le> pat_headings p)"

section \<open>Recommendations of the comprehensive analyzer\<close>

datatype priority = Critical | High | Medium

text \<open>
  A recommendation as \<^verbatim>\<open>generateAIRecommendations\<close> pushes it.  The reasoning
  text is the fixed template of line 659 around the principle and its score, which is
  what \<open>rec_aiReasoning\<close> keeps.
\<close>

record recommendation =
  rec_principle :: string
  rec_score :: number
  rec_priority :: priority
  rec_suggestion :: string
  rec_aiReasoning :: "string \<times> number"

text \<open>The \<^verbatim>\<open>switch\<close> of lines 621-652; no case leaves the empty string.\<close>

definition suggestion_for :: "string \<Rightarrow> string" where
  "suggestion_for principle =
     (if principle = ''observability'' then
        ''Add comprehensive data-test attributes, implement state monitoring, and enhance error visibility''
      else if principle = ''controllability'' then
        ''Improve input validation, add loading states, and enhance interaction feedback''
      else if principle = ''algorithmicSimplicity'' then
        ''Reduce page complexity, simplify workflows, and improve semantic structure''
      else if principle = ''algorithmicTransparency'' then
        ''Add progress indicators, improve feedback messages, and reduce black-box operations''
      else if principle = ''algorithmicStability'' then
        ''Implement consistent data-test patterns and improve element stability''
      else if principle = ''explainability'' then
        ''Add semantic HTML elements, implement ARIA labels, and improve documentation''
      else if principle = ''unbugginess'' then
        ''Fix JavaScript errors, improve error handling, and enhance robustness''
      else if principle = ''smallness'' then
        ''Break down large components, reduce page size, and improve modularity''
      else if principle = ''decomposability'' then
        ''Improve component separation, add isolated test targets, and enhance modularity''
      else if principle = ''similarity'' then
        ''Follow standard UI patterns, implement conventional design, and use familiar technologies''
      else '''')"

definition recommendation_for :: "string \<Rightarrow> number \<Rightarrow> recommendation" where
  "recommendation_for principle score =
     (let suggestion = suggestion_for principle;
          priority = (if score < 40 then Critical else if score < 50 then High else Medium)
      in \<lparr> rec_principle = principle, rec_score = score, rec_priority = priority,
           rec_suggestion = suggestion, rec_aiReasoning = (principle, score) \<rparr>)"

text \<open>
  \<^verbatim>\<open>generateAIRecommendations\<close>, lines 613-666: one pass over the entries of
  \<^verbatim>\<open>this.principles\<close> in their order, pushing for a score below 60.
\<close>

definition generateAIRecommendations :: "number js_object \<Rightarrow> recommendation list" where
  "generateAIRecommendations principles =
     foldl (\<lambda>recommendations (principle, score).
              if score < 60 then recommendations @ [recommendation_for principle score]
              else recommendations)
           [] principles"

section \<open>The complete analysis\<close>

text \<open>
  The state of a \<^verbatim>\<open>ComprehensiveTestabilityAnalyzer\<close> that its methods read:
  the timestamp of its construction, the principle scores and the recommendations.
  (\<^verbatim>\<open>detailedMetrics\<close> and \<^verbatim>\<open>aiInsights\<close> are written and copied
  into the result, and read by no computation.)
\<close>

record analyzer =
  this_timestamp :: string
  this_principles :: "number js_object"
  this_aiRecommendations :: "recommendation list"

definition new_analyzer :: "string \<Rightarrow> analyzer" where
  "new_analyzer now =
     \<lparr> this_timestamp = now, this_principles = initial_principles,
       this_aiRecommendations = [] \<rparr>"

text \<open>
  What one run of \<^verbatim>\<open>runCompleteAnalysis\<close> meets: the debugger's session
  identifier, the navigation and login (any of whose steps may throw), the visibility of
  the inventory, the pages the ten analyzers see, and the end of the debug session.
\<close>

record complete_page =
  pg_startDebugSession :: "string option awaited"
  pg_login :: "unit awaited"
  pg_loginSuccess :: bool
  pg_debugSessions :: debugSessions
  pg_observability :: observability_page
  pg_controllability :: controllability_page
  pg_algorithmicSimplicity :: simplicity_page
  pg_algorithmicTransparency :: transparency_page
  pg_algorithmicStability :: stability_page
  pg_explainability :: explainability_page
  pg_unbugginess :: unbugginess_page
  pg_smallness :: smallness_page
  pg_decomposability :: decomposability_page
  pg_similarity :: similarity_page
  pg_endDebugSession :: "unit awaited"

record completed =
  res_userType :: string
  res_timestamp :: string
  res_overallScore :: int
  res_principleScores :: "number js_object"
  res_aiRecommendations :: "recommendation list"
  res_grade :: string

text \<open>
  \<open>Failed userType error\<close> is the object
  \<^verbatim>\<open>{ userType, error, scores: {} }\<close>.
\<close>

datatype analysis_result = Failed string string | Completed completed

text \<open>
  The ten assignments \<^verbatim>\<open>this.principles.p = await this.analyzeP(...)\<close> in
  their order.  An analyzer that threw would stop them, with the earlier assignments
  done.
\<close>

fun assign_scores ::
  "number js_object \<Rightarrow> (string \<times> number awaited) list \<Rightarrow> js_error option \<times> number js_object"
where
  "assign_scores principles [] = (None, principles)"
| "assign_scores principles ((principle, Inl error) # rest) = (Some error, principles)"
| "assign_scores principles ((principle, Inr score) # rest) =
     assign_scores (AList.update principle score principles) rest"

definition analyze_all :: "complete_page \<Rightarrow> string option \<Rightarrow> (string \<times> number awaited) list"
where
  "analyze_all page debugSessionId =
     [(''observability'',
         analyzeObservability (pg_observability page) debugSessionId (pg_debugSessions page)),
      (''controllability'', analyzeControllability (pg_controllability page)),
      (''algorithmicSimplicity'', analyzeAlgorithmicSimplicity (pg_algorithmicSimplicity page)),
      (''algorithmicTransparency'',
         analyzeAlgorithmicTransparency (pg_algorithmicTransparency page)),
      (''algorithmicStability'', analyzeAlgorithmicStability (pg_algorithmicStability page)),
      (''explainability'', analyzeExplainability (pg_explainability page)),
      (''unbugginess'', analyzeUnbugginess (pg_unbugginess page)),
      (''smallness'', analyzeSmallness (pg_smallness page)),
      (''decomposability'', analyzeDecomposability (pg_decomposability page)),
      (''similarity'', analyzeSimilarity (pg_similarity page))]"

text \<open>
  \<^verbatim>\<open>runCompleteAnalysis\<close>, lines 671-748.  It returns the result and the
  analyzer as the run leaves it.
\<close>

definition runCompleteAnalysis ::
  "analyzer \<Rightarrow> complete_page \<Rightarrow> string \<Rightarrow> analysis_result \<times> analyzer" where
  "runCompleteAnalysis this page userType =
     (case pg_startDebugSession page of
        Inl error \<Rightarrow> (Failed userType (message error), this)
      | Inr debugSessionId \<Rightarrow>
     (case pg_login page of
        Inl error \<Rightarrow> (Failed userType (message error), this)
      | Inr _ \<Rightarrow>
     if \<not> pg_loginSuccess page then (Failed userType ''Login failed'', this)
     else
     (case assign_scores (this_principles this) (analyze_all page debugSessionId) of
        (Some error, principles) \<Rightarrow>
          (Failed userType (message error), this\<lparr>this_principles := principles\<rparr>)
      | (None, principles) \<Rightarrow>
     let this = this\<lparr>this_principles := principles\<rparr>;
         overallScore = overallScore_complete (this_principles this);
         recommendations = generateAIRecommendations (this_principles this);
         this = this\<lparr>this_aiRecommendations := recommendations\<rparr>
     in
     (case pg_endDebugSession page of
        Inl error \<Rightarrow> (Failed userType (message error), this)
      | Inr _ \<Rightarrow>
        (Completed \<lparr> res_userType = userType, res_timestamp = this_timestamp this,
                     res_overallScore = overallScore,
                     res_principleScores = this_principles this,
                     res_aiRecommendations = recommendations,
                     res_grade = getGrade (of_int overallScore) \<rparr>,
         this)))))"

section \<open>The AI scorer\<close>

text \<open>
  \<^verbatim>\<open>discoverSmartElements\<close> catches its own errors and always resolves to its
  record of elements, which is taken here as it is returned: the counts and the
  \<^verbatim>\<open>data-test\<close> elements with the category given to them.
\<close>

record dataTest_element =
  el_testId :: string
  el_tagName :: string
  el_role :: string
  el_category :: string

record smartElements =
  se_total :: number
  se_testable :: number
  se_observable :: number
  se_interactive :: number
  se_dataTest :: "dataTest_element list"

text \<open>\<^verbatim>\<open>s.includes(sub)\<close>\<close>

fun str_includes :: "string \<Rightarrow> string \<Rightarrow> bool" where
  "str_includes [] sub = (sub = [])"
| "str_includes (c # cs) sub = (take (length sub) (c # cs) = sub \<or> str_includes cs sub)"

text \<open>
  \<^verbatim>\<open>a / b > c\<close> for a positive \<open>c\<close>, where the quotient by zero is
  \<^verbatim>\<open>Infinity\<close> for a positive \<open>a\<close>, \<^verbatim>\<open>-Infinity\<close> for a negative one
  and \<^verbatim>\<open>NaN\<close> for zero.
\<close>

definition ratio_exceeds :: "number \<Rightarrow> number \<Rightarrow> number \<Rightarrow> bool" where
  "ratio_exceeds a b c = (if b = 0 then a > 0 else a / b > c)"

subsection \<open>Observability\<close>

definition analyzeDataTestAttributes :: "dataTest_element list \<Rightarrow> number" where
  "analyzeDataTestAttributes dataTestElements =
     (if length dataTestElements = 0 then 5
      else
        let score = 0;
            score = score + min 15 (Math_floor (of_nat (length dataTestElements) / 2));
            categoryCount = of_nat (length (remdups (map el_category dataTestElements)));
            score = score + min 10 (categoryCount * 2);
            hasConsistentNaming =
              list_all (\<lambda>el. str_includes (el_testId el) ''-'' \<or> str_includes (el_testId el) ''_'')
                dataTestElements;
            score = (if hasConsistentNaming then score + 5 else score)
        in min 30 score)"

record stateCapabilities =
  cap_localStorage :: bool
  cap_sessionStorage :: bool
  cap_cookies :: bool
  cap_browserHistory :: bool
  cap_readyState :: string
  cap_customState :: bool

definition analyzeStateCapture :: "stateCapabilities awaited \<Rightarrow> number awaited" where
  "analyzeStateCapture evaluate =
     try_catch
       (await evaluate (\<lambda>stateCapabilities.
        let score = 0;
            score = (if cap_localStorage stateCapabilities \<or> cap_sessionStorage stateCapabilities
                     then score + 10 else score);
            score = (if cap_browserHistory stateCapabilities then score + 5 else score);
            score = (if cap_readyState stateCapabilities = ''complete'' then score + 5
                     else score);
            score = (if cap_customState stateCapabilities then score + 5 else score)
        in Inr (min 25 score)))
       (\<lambda>error. Inr 10)"

definition analyzeErrorVisibility ::
  "smartElements \<Rightarrow> number awaited \<Rightarrow> number awaited \<Rightarrow> number awaited" where
  "analyzeErrorVisibility smartElements visibleErrors_count consoleErrors_count =
     try_catch
       (let score = 0;
            errorElements =
              filter (\<lambda>el. el_category el = ''feedback'' \<or> str_includes (el_testId el) ''error'')
                (se_dataTest smartElements);
            score = (if length errorElements > 0 then score + 10 else score) in
        await visibleErrors_count (\<lambda>visibleErrors.
        let score = (if visibleErrors > 0 then score + 5 else score) in
        await consoleErrors_count (\<lambda>consoleErrors.
        let score = (if consoleErrors = 0 then score + 5 else score) in
        Inr (min 20 score))))
       (\<lambda>error. Inr 8)"

text \<open>
  \<open>screenshot\<close> is the screenshot with the removal of its file: done, or the error of
  either.
\<close>

definition analyzeVisualCapabilities ::
  "unit awaited \<Rightarrow> number awaited \<Rightarrow> number awaited \<Rightarrow> number awaited" where
  "analyzeVisualCapabilities screenshot images_count imagesWithAlt_count =
     try_catch
       (let score = 0 in
        await screenshot (\<lambda>_.
        let score = score + 8 in
        await images_count (\<lambda>images.
        let score = (if images > 0 then score + 4 else score) in
        await imagesWithAlt_count (\<lambda>imagesWithAlt.
        let score = (if images > 0 \<and> imagesWithAlt / images > 1 / 2 then score + 3 else score)
        in Inr (min 15 score)))))
       (\<lambda>error. Inr 5)"

definition analyzeNetworkMonitoring :: "string option \<Rightarrow> debugSessions \<Rightarrow> number awaited" where
  "analyzeNetworkMonitoring debugSessionId sessions =
     try_catch
       (if truthy debugSessionId then
          (case sessions (the debugSessionId) of
             None \<Rightarrow> Inr 5
           | Some requests \<Rightarrow> await requests (\<lambda>n. Inr (if n > 0 then 10 else 5)))
        else Inr 5)
       (\<lambda>error. Inr 3)"

text \<open>
  \<^verbatim>\<open>calculateIntelligenceBonus\<close> reads the three counts that
  \<^verbatim>\<open>scoreAIObservability\<close> has just copied from the elements into the insights.
\<close>

definition calculateIntelligenceBonus :: "smartElements \<Rightarrow> number" where
  "calculateIntelligenceBonus insights =
     (let bonus = 0;
          bonus = (if ratio_exceeds (se_testable insights) (se_total insights) (1 / 10)
                   then bonus + 2 else bonus);
          bonus = (if ratio_exceeds (se_observable insights) (se_total insights) (1 / 20)
                   then bonus + 2 else bonus);
          bonus = (if se_observable insights > 10 then bonus + 1 else bonus)
      in bonus)"

record ai_observability_page =
  aio_smartElements :: smartElements
  aio_stateCapabilities :: "stateCapabilities awaited"
  aio_visibleErrors :: "number awaited"
  aio_consoleErrors :: "number awaited"
  aio_screenshot :: "unit awaited"
  aio_images :: "number awaited"
  aio_imagesWithAlt :: "number awaited"

definition scoreAIObservability ::
  "ai_observability_page \<Rightarrow> string option \<Rightarrow> debugSessions \<Rightarrow> number awaited" where
  "scoreAIObservability page debugSessionId sessions =
     try_catch
       (let score = 0;
            smartElements = aio_smartElements page;
            dataTestScore = analyzeDataTestAttributes (se_dataTest smartElements);
            score = score + dataTestScore in
        await (analyzeStateCapture (aio_stateCapabilities page)) (\<lambda>stateScore.
        let score = score + stateScore in
        await (analyzeErrorVisibility smartElements (aio_visibleErrors page)
                 (aio_consoleErrors page)) (\<lambda>errorScore.
        let score = score + errorScore in
        await (analyzeVisualCapabilities (aio_screenshot page) (aio_images page)
                 (aio_imagesWithAlt page)) (\<lambda>visualScore.
        let score = score + visualScore in
        await (analyzeNetworkMonitoring debugSessionId sessions) (\<lambda>networkScore.
        let score = score + networkScore;
            bonusScore = calculateIntelligenceBonus smartElements;
            score = min 100 (score + bonusScore)
        in Inr score)))))
       (\<lambda>error. Inr 20)"

subsection \<open>Controllability\<close>

text \<open>
  The class body defines \<^verbatim>\<open>analyzeInteractionReliability\<close>,
  \<^verbatim>\<open>analyzeAccessibilityIntegration\<close>,
  \<^verbatim>\<open>analyzeInteractionPatternSimplicity\<close> and
  \<^verbatim>\<open>analyzeSemanticStructure\<close> twice.  The later definition of a method
  replaces the earlier one, so the placeholders of lines 1082-1085 are the methods that
  run; the others named there exist once.
\<close>

definition analyzeInteractionReliability :: "number awaited" where
  "analyzeInteractionReliability = Inr 10"

definition analyzeAccessibilityIntegration :: "number awaited" where
  "analyzeAccessibilityIntegration = Inr 8"

definition analyzeInteractionPatternSimplicity :: "number awaited" where
  "analyzeInteractionPatternSimplicity = Inr 20"

definition analyzeSemanticStructure :: "number awaited" where
  "analyzeSemanticStructure = Inr 15"

record interactionPatterns =
  ip_buttons :: number
  ip_inputs :: number
  ip_selects :: number
  ip_links :: number
  ip_interactive :: number
  ip_total :: number

text \<open>
  \<open>aic_inputValue\<close> is the value read back from the first text input after the fill, or
  the error of the fill or of the reading.  \<open>aic_buttons_isEnabled\<close> holds
  \<^verbatim>\<open>isEnabled\<close> of every button found.
\<close>

record ai_controllability_page =
  aic_buttons :: "number awaited"
  aic_inputs :: "number awaited"
  aic_selects :: "number awaited"
  aic_links :: "number awaited"
  aic_interactive :: "number awaited"
  aic_textInputs :: "nat awaited"
  aic_inputValue :: "string awaited"
  aic_clear :: "unit awaited"
  aic_requiredInputs :: "number awaited"
  aic_typedInputs :: "number awaited"
  aic_buttons_isEnabled :: "bool awaited list awaited"
  aic_forms :: "number awaited"
  aic_reload :: "bool awaited"
  aic_elementCount1 :: "number awaited"
  aic_waitForTimeout :: "unit awaited"
  aic_elementCount2 :: "number awaited"

definition analyzeInteractionPatterns :: "ai_controllability_page \<Rightarrow> interactionPatterns awaited"
where
  "analyzeInteractionPatterns page =
     await (aic_buttons page) (\<lambda>buttons.
     await (aic_inputs page) (\<lambda>inputs.
     await (aic_selects page) (\<lambda>selects.
     await (aic_links page) (\<lambda>links.
     await (aic_interactive page) (\<lambda>interactive.
     let patterns = \<lparr> ip_buttons = buttons, ip_inputs = inputs, ip_selects = selects,
                        ip_links = links, ip_interactive = interactive, ip_total = 0 \<rparr>;
         patterns = patterns\<lparr> ip_total := ip_buttons patterns + ip_inputs patterns
                                          + ip_selects patterns + ip_links patterns \<rparr>
     in Inr patterns)))))"

definition analyzeInputPrecision :: "ai_controllability_page \<Rightarrow> number awaited" where
  "analyzeInputPrecision page =
     try_catch
       (let score = 0 in
        await (aic_textInputs page) (\<lambda>inputs_length.
        await (if inputs_length > 0 then
                 (let testValue = ''ai_precision_test_123'' in
                  await (aic_inputValue page) (\<lambda>actualValue.
                  let score = (if actualValue = testValue then score + 20
                               else if str_includes actualValue ''ai_precision'' then score + 10
                               else score) in
                  await (aic_clear page) (\<lambda>_. Inr score)))
               else Inr score) (\<lambda>score.
        await (aic_requiredInputs page) (\<lambda>requiredInputs.
        let score = (if requiredInputs > 0 then score + 5 else score) in
        await (aic_typedInputs page) (\<lambda>typedInputs.
        let score = (if typedInputs > 0 then score + 5 else score) in
        Inr (min 30 score))))))
       (\<lambda>error. Inr 10)"

text \<open>The loop of lines 625-628 over the first five buttons.\<close>

fun count_enabled :: "bool awaited list \<Rightarrow> nat \<Rightarrow> nat awaited" where
  "count_enabled [] enabledButtons = Inr enabledButtons"
| "count_enabled (button # buttons) enabledButtons =
     await button (\<lambda>isEnabled.
       count_enabled buttons (if isEnabled then enabledButtons + 1 else enabledButtons))"

definition analyzeStateControl ::
  "ai_controllability_page \<Rightarrow> interactionPatterns \<Rightarrow> number awaited" where
  "analyzeStateControl page patterns =
     try_catch
       (let score = 0 in
        await (aic_buttons_isEnabled page) (\<lambda>buttons.
        await (count_enabled (take 5 buttons) 0) (\<lambda>enabledButtons.
        let score = (if enabledButtons > 0 then score + 15 else score) in
        await (aic_forms page) (\<lambda>forms.
        let score = (if forms > 0 then score + 5 else score);
            score = (if ip_interactive patterns > 5 then score + 5 else score) in
        Inr (min 25 score)))))
       (\<lambda>error. Inr 10)"

definition analyzeDeterminism :: "ai_controllability_page \<Rightarrow> number awaited" where
  "analyzeDeterminism page =
     try_catch
       (let score = 0 in
        await (aic_reload page) (\<lambda>same_url.
        let score = (if same_url then score + 10 else score) in
        await (aic_elementCount1 page) (\<lambda>elementCount1.
        await (aic_waitForTimeout page) (\<lambda>_.
        await (aic_elementCount2 page) (\<lambda>elementCount2.
        let score = (if elementCount1 = elementCount2 then score + 10 else score) in
        Inr (min 20 score))))))
       (\<lambda>error. Inr 8)"

definition scoreAIControllability :: "ai_controllability_page \<Rightarrow> number awaited" where
  "scoreAIControllability page =
     try_catch
       (let score = 0 in
        await (analyzeInteractionPatterns page) (\<lambda>interactionPatterns.
        await (analyzeInputPrecision page) (\<lambda>inputScore.
        let score = score + inputScore in
        await (analyzeStateControl page interactionPatterns) (\<lambda>stateControlScore.
        let score = score + stateControlScore in
        await (analyzeDeterminism page) (\<lambda>determinismScore.
        let score = score + determinismScore in
        await analyzeInteractionReliability (\<lambda>reliabilityScore.
        let score = score + reliabilityScore in
        await analyzeAccessibilityIntegration (\<lambda>accessibilityScore.
        let score = score + accessibilityScore in
        Inr score)))))))
       (\<lambda>error. Inr 25)"

subsection \<open>Algorithmic simplicity\<close>

record complexityMetrics =
  cm_totalElements :: number
  cm_divElements :: number
  cm_nestedLevels :: number
  cm_scriptTags :: number
  cm_styleTags :: number

definition analyzeComplexity :: "complexityMetrics awaited \<Rightarrow> complexityMetrics awaited" where
  "analyzeComplexity evaluate =
     try_catch (await evaluate (\<lambda>metrics. Inr metrics))
       (\<lambda>error. Inr \<lparr> cm_totalElements = 100, cm_divElements = 30, cm_nestedLevels = 10,
                       cm_scriptTags = 5, cm_styleTags = 3 \<rparr>)"

definition analyzeDOMComplexity :: "complexityMetrics \<Rightarrow> number" where
  "analyzeDOMComplexity metrics =
     (let score = 40;
          score = (if cm_totalElements metrics > 1000 then score - 15
                   else if cm_totalElements metrics > 500 then score - 8
                   else if cm_totalElements metrics > 200 then score - 3
                   else score);
          score = (if cm_nestedLevels metrics > 15 then score - 10
                   else if cm_nestedLevels metrics > 10 then score - 5
                   else score);
          score = (if ratio_exceeds (cm_divElements metrics) (cm_totalElements metrics) (2 / 5)
                   then score - 8
                   else if ratio_exceeds (cm_divElements metrics) (cm_totalElements metrics)
                             (3 / 10)
                   then score - 4
                   else score)
      in max 0 score)"

definition analyzePredictability :: "complexityMetrics \<Rightarrow> number" where
  "analyzePredictability metrics =
     (let score = 10;
          score = (if cm_scriptTags metrics > 20 then score - 4
                   else if cm_scriptTags metrics > 10 then score - 2
                   else score);
          score = (if cm_totalElements metrics > 1000 then score - 3 else score)
      in max 0 score)"

definition scoreAIAlgorithmicSimplicity :: "complexityMetrics awaited \<Rightarrow> number awaited" where
  "scoreAIAlgorithmicSimplicity evaluate =
     try_catch
       (let score = 0 in
        await (analyzeComplexity evaluate) (\<lambda>complexityMetrics.
        let domScore = analyzeDOMComplexity complexityMetrics;
            score = score + domScore in
        await analyzeInteractionPatternSimplicity (\<lambda>patternScore.
        let score = score + patternScore in
        await analyzeSemanticStructure (\<lambda>semanticScore.
        let score = score + semanticScore;
            predictabilityScore = analyzePredictability complexityMetrics;
            score = score + predictabilityScore in
        Inr score))))
       (\<lambda>error. Inr 30)"

subsection \<open>Explainability and decomposability\<close>

text \<open>
  \<^verbatim>\<open>performSemanticAnalysis\<close> and \<^verbatim>\<open>analyzeComponentIntelligence\<close>
  cannot throw and what they return is read by placeholders that ignore it: five and four
  constants are summed.
\<close>

definition scoreAIExplainability :: "number awaited" where
  "scoreAIExplainability =
     try_catch
       (let score = 0;
            semanticScore = 25; score = score + semanticScore;
            accessibilityScore = 20; score = score + accessibilityScore;
            labelingScore = 15; score = score + labelingScore;
            documentationScore = 10; score = score + documentationScore;
            contextScore = 8; score = score + contextScore
        in Inr score)
       (\<lambda>error. Inr 35)"

definition scoreAIDecomposability :: "number awaited" where
  "scoreAIDecomposability =
     try_catch
       (let score = 0;
            separationScore = 30; score = score + separationScore;
            modularityScore = 25; score = score + modularityScore;
            isolationScore = 15; score = score + isolationScore;
            boundariesScore = 12; score = score + boundariesScore
        in Inr score)
       (\<lambda>error. Inr 40)"

subsection \<open>The assessment of the AI scorer\<close>

record ai_suggestion =
  sug_principle :: string
  sug_priority :: priority
  sug_suggestion :: string
  sug_aiReasoning :: string

record predictiveAnalysis =
  testMaintainability :: string
  futureComplexity :: string
  aiTestingReadiness :: string

text \<open>
  The state of an \<^verbatim>\<open>AITestabilityScorer\<close>: the timestamp of its construction,
  the principle scores, and of \<^verbatim>\<open>aiInsights\<close> the suggestions and the
  predictive analysis.
\<close>

record ai_scorer =
  ai_timestamp :: string
  ai_principleScores :: "number js_object"
  ai_improvementSuggestions :: "ai_suggestion list"
  ai_predictiveAnalysis :: "predictiveAnalysis option"

definition new_ai_scorer :: "string \<Rightarrow> ai_scorer" where
  "new_ai_scorer now =
     \<lparr> ai_timestamp = now, ai_principleScores = initial_principles,
       ai_improvementSuggestions = [], ai_predictiveAnalysis = None \<rparr>"

text \<open>
  Comparisons with a property that may be missing, or with an overall score that may be
  \<^verbatim>\<open>NaN\<close>: both compare as false.
\<close>

fun less_than :: "number option \<Rightarrow> number \<Rightarrow> bool" where
  "less_than None bound = False"
| "less_than (Some x) bound = (x < bound)"

fun greater_than :: "number option \<Rightarrow> number \<Rightarrow> bool" where
  "greater_than None bound = False"
| "greater_than (Some x) bound = (x > bound)"

text \<open>\<^verbatim>\<open>generateAIInsights\<close>, lines 966-1007.\<close>

definition generateAIInsights :: "ai_scorer \<Rightarrow> int option \<Rightarrow> ai_scorer" where
  "generateAIInsights this overallScore =
     (let principleScores = ai_principleScores this;
          suggestions = ai_improvementSuggestions this;
          suggestions =
            (if less_than (map_of principleScores ''observability'') 70 then
               suggestions @
                 [\<lparr> sug_principle = ''Observability'', sug_priority = High,
                     sug_suggestion = ''Add more data-test attributes and implement comprehensive state monitoring'',
                     sug_aiReasoning = ''AI detected limited element observability and state capture capabilities'' \<rparr>]
             else suggestions);
          suggestions =
            (if less_than (map_of principleScores ''controllability'') 70 then
               suggestions @
                 [\<lparr> sug_principle = ''Controllability'', sug_priority = High,
                     sug_suggestion = ''Improve interaction patterns and ensure reliable element state control'',
                     sug_aiReasoning = ''AI analysis shows inconsistent interaction patterns and state management'' \<rparr>]
             else suggestions);
          suggestions =
            (if less_than (map_of principleScores ''explainability'') 70 then
               suggestions @
                 [\<lparr> sug_principle = ''Explainability'', sug_priority = Medium,
                     sug_suggestion = ''Enhance semantic HTML structure and accessibility attributes'',
                     sug_aiReasoning = ''AI semantic analysis indicates limited contextual understanding capabilities'' \<rparr>]
             else suggestions);
          overall = map_option of_int overallScore;
          analysis =
            \<lparr> testMaintainability =
                (if greater_than overall 80 then ''High''
                 else if greater_than overall 60 then ''Medium'' else ''Low''),
              futureComplexity =
                (if greater_than (map_of principleScores ''algorithmicSimplicity'') 70
                 then ''Manageable'' else ''Challenging''),
              aiTestingReadiness =
                (if greater_than overall 75 then ''Ready for AI automation''
                 else ''Needs improvement for AI testing'') \<rparr>
      in this\<lparr> ai_improvementSuggestions := suggestions,
               ai_predictiveAnalysis := Some analysis \<rparr>)"

record ai_page =
  ap_startDebugSession :: "string option awaited"
  ap_login :: "unit awaited"
  ap_loginSuccess :: bool
  ap_debugSessions :: debugSessions
  ap_observability :: ai_observability_page
  ap_controllability :: ai_controllability_page
  ap_complexity :: "complexityMetrics awaited"
  ap_endDebugSession :: "unit awaited"

record ai_completed =
  air_userType :: string
  air_timestamp :: string
  air_overallScore :: "int option"
  air_principleScores :: "number js_object"
  air_grade :: string
  air_recommendations :: "ai_suggestion list"

datatype ai_result = AIFailed string string | AICompleted ai_completed

definition score_all :: "ai_page \<Rightarrow> string option \<Rightarrow> (string \<times> number awaited) list" where
  "score_all page debugSessionId =
     [(''observability'',
         scoreAIObservability (ap_observability page) debugSessionId (ap_debugSessions page)),
      (''controllability'', scoreAIControllability (ap_controllability page)),
      (''algorithmicSimplicity'', scoreAIAlgorithmicSimplicity (ap_complexity page)),
      (''explainability'', scoreAIExplainability),
      (''decomposability'', scoreAIDecomposability)]"

text \<open>The grade of an overall score that may be \<^verbatim>\<open>NaN\<close>.\<close>

definition getAIGrade_of :: "int option \<Rightarrow> string" where
  "getAIGrade_of overallScore =
     (case overallScore of None \<Rightarrow> ''F (Not AI-Ready)'' | Some n \<Rightarrow> getAIGrade (of_int n))"

text \<open>
  \<^verbatim>\<open>runAIAssessment\<close>, lines 898-961.  The recommendations of the result are
  the suggestion list of the scorer itself.
\<close>

definition runAIAssessment :: "ai_scorer \<Rightarrow> ai_page \<Rightarrow> string \<Rightarrow> ai_result \<times> ai_scorer" where
  "runAIAssessment this page userType =
     (case ap_startDebugSession page of
        Inl error \<Rightarrow> (AIFailed userType (message error), this)
      | Inr debugSessionId \<Rightarrow>
     (case ap_login page of
        Inl error \<Rightarrow> (AIFailed userType (message error), this)
      | Inr _ \<Rightarrow>
     if \<not> ap_loginSuccess page then (AIFailed userType ''Login failed'', this)
     else
     (case assign_scores (ai_principleScores this) (score_all page debugSessionId) of
        (Some error, principleScores) \<Rightarrow>
          (AIFailed userType (message error), this\<lparr>ai_principleScores := principleScores\<rparr>)
      | (None, principleScores) \<Rightarrow>
     let this = this\<lparr>ai_principleScores := principleScores\<rparr>;
         overallScore = calculateOverallScore (ai_principleScores this);
         this = generateAIInsights this overallScore
     in
     (case ap_endDebugSession page of
        Inl error \<Rightarrow> (AIFailed userType (message error), this)
      | Inr _ \<Rightarrow>
        (AICompleted \<lparr> air_userType = userType, air_timestamp = ai_timestamp this,
                       air_overallScore = overallScore,
                       air_principleScores = ai_principleScores this,
                       air_grade = getAIGrade_of overallScore,
                       air_recommendations = ai_improvementSuggestions this \<rparr>,
         this)))))"

section \<open>Pages with counts that are not negative\<close>

text \<open>Every count a query of the ten analyzers yields is at least 0.\<close>

definition counts_nonneg :: "complete_page \<Rightarrow> bool" where
  "counts_nonneg page \<longleftrightarrow>
     nonneg (obs_dataTestElements (pg_observability page))
   \<and> nonneg (obs_errorElements (pg_observability page))
   \<and> nonneg (obs_visualElements (pg_observability page))
   \<and> nonneg (ctl_interactiveElements (pg_controllability page))
   \<and> nonneg (ctl_buttons (pg_controllability page))
   \<and> nonneg (ctl_links (pg_controllability page))
   \<and> nonneg (sim_totalElements (pg_algorithmicSimplicity page))
   \<and> nonneg (sim_forms (pg_algorithmicSimplicity page))
   \<and> nonneg (sim_buttons (pg_algorithmicSimplicity page))
   \<and> nonneg (sim_headings (pg_algorithmicSimplicity page))
   \<and> nonneg (sim_navigation (pg_algorithmicSimplicity page))
   \<and> nonneg (tra_visibleFeedback (pg_algorithmicTransparency page))
   \<and> nonneg (tra_labels (pg_algorithmicTransparency page))
   \<and> nonneg (tra_tooltips (pg_algorithmicTransparency page))
   \<and> nonneg (tra_consoleErrors (pg_algorithmicTransparency page))
   \<and> nonneg (sta_initialElementCount (pg_algorithmicStability page))
   \<and> nonneg (sta_reloadElementCount (pg_algorithmicStability page))
   \<and> nonneg (sta_consistentElements (pg_algorithmicStability page))
   \<and> nonneg (exp_semanticElements (pg_explainability page))
   \<and> nonneg (exp_labeledInputs (pg_explainability page))
   \<and> nonneg (exp_actualLabels (pg_explainability page))
   \<and> nonneg (exp_altTexts (pg_explainability page))
   \<and> nonneg (exp_totalImages (pg_explainability page))
   \<and> nonneg (exp_ariaElements (pg_explainability page))
   \<and> nonneg (unb_jsErrors (pg_unbugginess page))
   \<and> nonneg (unb_consoleErrors (pg_unbugginess page))
   \<and> nonneg (unb_errorElements (pg_unbugginess page))
   \<and> nonneg (unb_brokenImages (pg_unbugginess page))
   \<and> nonneg (sma_totalElements (pg_smallness page))
   \<and> nonneg (sma_testableElements (pg_smallness page))
   \<and> nonneg (sma_contentSize (pg_smallness page))
   \<and> nonneg (dec_containers (pg_decomposability page))
   \<and> nonneg (dec_isolatedElements (pg_decomposability page))
   \<and> nonneg (dec_forms (pg_decomposability page))
   \<and> nonneg (dec_modules (pg_decomposability page))
   \<and> nonneg_patterns (sml_standardElements (pg_similarity page))"

section \<open>Example pages\<close>

text \<open>
  A page on which every query succeeds: an inventory page with some thirty
  \<^verbatim>\<open>data-test\<close> elements, no error element and no semantic markup.
\<close>

definition inventory_page :: complete_page where
  "inventory_page =
     \<lparr> pg_startDebugSession = Inr (Some ''session-1''),
       pg_login = Inr (),
       pg_loginSuccess = True,
       pg_debugSessions = (\<lambda>id. if id = ''session-1'' then Some (Inr 12) else None),
       pg_observability =
         \<lparr> obs_stateData = Inr \<lparr> localStorage = 0, sessionStorage = 0, cookies = True,
                                   readyState = ''complete'' \<rparr>,
           obs_dataTestElements = Inr 30, obs_errorElements = Inr 0,
           obs_visualElements = Inr 8 \<rparr>,
       pg_controllability =
         \<lparr> ctl_inputFields = Inr 1, ctl_fill_roundtrip = Inr True,
           ctl_interactiveElements = Inr 20, ctl_reload = Inr True,
           ctl_buttons = Inr 9, ctl_links = Inr 10 \<rparr>,
       pg_algorithmicSimplicity =
         \<lparr> sim_totalElements = Inr 180, sim_forms = Inr 0, sim_buttons = Inr 9,
           sim_headings = Inr 0, sim_navigation = Inr 1 \<rparr>,
       pg_algorithmicTransparency =
         \<lparr> tra_visibleFeedback = Inr 0, tra_labels = Inr 0, tra_tooltips = Inr 0,
           tra_consoleErrors = Inr 0 \<rparr>,
       pg_algorithmicStability =
         \<lparr> sta_initialElementCount = Inr 30, sta_reload = Inr (),
           sta_waitForPageReady = Inr (), sta_reloadElementCount = Inr 30,
           sta_dataTestIds = Inr [''inventory-container'', ''title'', ''add-to-cart''],
           sta_consistentElements = Inr 7 \<rparr>,
       pg_explainability =
         \<lparr> exp_semanticElements = Inr 2, exp_labeledInputs = Inr 0, exp_actualLabels = Inr 0,
           exp_altTexts = Inr 6, exp_totalImages = Inr 8, exp_ariaElements = Inr 3 \<rparr>,
       pg_unbugginess =
         \<lparr> unb_jsErrors = Inr 0, unb_consoleErrors = Inr 0, unb_errorElements = Inr 0,
           unb_brokenImages = Inr 1 \<rparr>,
       pg_smallness =
         \<lparr> sma_totalElements = Inr 180, sma_testableElements = Inr 30,
           sma_contentSize = Inr 9000 \<rparr>,
       pg_decomposability =
         \<lparr> dec_containers = Inr 40, dec_isolatedElements = Inr 30, dec_forms = Inr 0,
           dec_modules = Inr 50 \<rparr>,
       pg_similarity =
         \<lparr> sml_standardElements = Inr \<lparr> pat_buttons = 9, pat_forms = 0, pat_navigation = 1,
                                          pat_headings = 0 \<rparr>,
           sml_familiarTech = Inr \<lparr> html5 = True, css = True, javascript = True,
                                     tech_forms = False \<rparr>,
           sml_conventions = Inr \<lparr> header = False, footer = True, main = False,
                                    breadcrumbs = False \<rparr> \<rparr>,
       pg_endDebugSession = Inr () \<rparr>"

text \<open>
  Pages with a negative count: \<open>-100\<close> interactive elements for the controllability
  analyzer, \<open>-100\<close> JavaScript errors for the unbugginess analyzer.
\<close>

definition negative_controllability_page :: controllability_page where
  "negative_controllability_page =
     \<lparr> ctl_inputFields = Inr 0, ctl_fill_roundtrip = Inr True,
       ctl_interactiveElements = Inr (- 100), ctl_reload = Inr True,
       ctl_buttons = Inr 0, ctl_links = Inr 0 \<rparr>"

definition negative_unbugginess_page :: unbugginess_page where
  "negative_unbugginess_page =
     \<lparr> unb_jsErrors = Inr (- 100), unb_consoleErrors = Inr 0, unb_errorElements = Inr 1,
       unb_brokenImages = Inr 0 \<rparr>"

section \<open>Recommendations of the scorecard\<close>

text \<open>
  \<^verbatim>\<open>generateRecommendations\<close> and \<^verbatim>\<open>getRecommendationForPrinciple\<close>
  of \<^verbatim>\<open>TestabilityScorer\<close>, tests/testability-principles.spec.js lines 725-764.
\<close>

record scorecard_recommendation =
  sr_principle :: string
  sr_score :: number
  sr_priority :: priority
  sr_recommendation :: string

definition getRecommendationForPrinciple :: "string \<Rightarrow> number \<Rightarrow> string" where
  "getRecommendationForPrinciple principle score =
     (case map_of
        [(''observability'',
            ''Add more data-test attributes, implement comprehensive logging, add visual feedback for state changes''),
         (''controllability'',
            ''Improve input validation feedback, add loading states, ensure deterministic behavior''),
         (''algorithmicSimplicity'',
            ''Simplify workflows, reduce steps for basic operations, clarify input-output relationships''),
         (''algorithmicTransparency'',
            ''Add progress indicators, provide better error messages, expose API behavior''),
         (''algorithmicStability'',
            ''Implement better error boundaries, add regression test coverage, improve state management''),
         (''explainability'',
            ''Add semantic HTML, improve accessibility attributes, enhance documentation''),
         (''unbugginess'',
            ''Implement comprehensive error handling, add input validation, improve robustness''),
         (''smallness'',
            ''Break down complex components, reduce page complexity, optimize network requests''),
         (''decomposability'',
            ''Improve component separation, add more testable interfaces, enhance modularity''),
         (''similarity'',
            ''Use standard web patterns, implement familiar UI conventions, follow common design practices'')]
        principle of
        Some text \<Rightarrow> text
      | None \<Rightarrow> ''Review and improve this testability aspect'')"

definition generateRecommendations :: "number js_object \<Rightarrow> scorecard_recommendation list" where
  "generateRecommendations scores =
     foldl (\<lambda>recommendations (principle, score).
              if score < 50 then
                recommendations @
                  [\<lparr> sr_principle = principle, sr_score = score, sr_priority = High,
                      sr_recommendation = getRecommendationForPrinciple principle score \<rparr>]
              else if score < 70 then
                recommendations @
                  [\<lparr> sr_principle = principle, sr_score = score, sr_priority = Medium,
                      sr_recommendation = getRecommendationForPrinciple principle score \<rparr>]
              else recommendations)
           [] scores"

section \<open>The top recommendations of the summary\<close>




section \<open>Example score maps\<close>

text \<open>Observability at 65 and every other principle at 80 or more.\<close>

definition borderline_principles :: "number js_object" where
  "borderline_principles =
     [(''observability'', 65), (''controllability'', 80), (''algorithmicSimplicity'', 85),
      (''algorithmicTransparency'', 80), (''algorithmicStability'', 90), (''explainability'', 80),
      (''unbugginess'', 95), (''smallness'', 80), (''decomposability'', 85), (''similarity'', 80)]"




text \<open>
  The entry \<^verbatim>\<open>generateRecommendations\<close> pushes for a score below 70, in either
  of its two branches.
\<close>

definition scorecard_entry :: "string \<Rightarrow> number \<Rightarrow> scorecard_recommendation" where
  "scorecard_entry principle score =
     \<lparr> sr_principle = principle, sr_score = score,
       sr_priority = (if score < 50 then High else Medium),
       sr_recommendation = getRecommendationForPrinciple principle score \<rparr>"

section \<open>Report generators\<close>

text \<open>
  The result of \<^verbatim>\<open>runQuickAssessment\<close>: the object with an error, or the
  object with the scores.
\<close>

record quick_completed =
  qr_userType :: string
  qr_timestamp :: string
  qr_overallScore :: int
  qr_scores :: "number js_object"
  qr_grade :: string

datatype quick_result = QuickFailed string string | QuickCompleted quick_completed

text \<open>
  \<^verbatim>\<open>r.error\<close>: the message of a failed result, \<^verbatim>\<open>undefined\<close> for a
  completed one.
\<close>

fun error_of :: "analysis_result \<Rightarrow> string option" where
  "error_of (Failed userType error) = Some error"
| "error_of (Completed result) = None"

fun ai_error_of :: "ai_result \<Rightarrow> string option" where
  "ai_error_of (AIFailed userType error) = Some error"
| "ai_error_of (AICompleted result) = None"

fun quick_error_of :: "quick_result \<Rightarrow> string option" where
  "quick_error_of (QuickFailed userType error) = Some error"
| "quick_error_of (QuickCompleted result) = None"

text \<open>
  The three generators start alike: they keep the results whose \<^verbatim>\<open>error\<close> is
  falsy and return a fixed sentence when none is left.  What follows builds the report
  from the results kept; it is the parameter \<open>report\<close>, which may throw.
\<close>

definition generateComparisonReport ::
  "(quick_result list \<Rightarrow> string awaited) \<Rightarrow> quick_result list \<Rightarrow> string awaited" where
  "generateComparisonReport report results =
     (let successfulResults = filter (\<lambda>r. \<not> truthy (quick_error_of r)) results in
      if length successfulResults = 0 then Inr ''No successful assessments to report.''
      else report successfulResults)"

definition generateComprehensiveReport ::
  "(analysis_result list \<Rightarrow> string awaited) \<Rightarrow> analysis_result list \<Rightarrow> string awaited"
where
  "generateComprehensiveReport report results =
     (let successfulResults = filter (\<lambda>r. \<not> truthy (error_of r)) results in
      if length successfulResults = 0 then Inr ''No successful analyses to report.''
      else report successfulResults)"

definition generateAIReport ::
  "(ai_result list \<Rightarrow> string awaited) \<Rightarrow> ai_result list \<Rightarrow> string awaited" where
  "generateAIReport report results =
     (let successfulResults = filter (\<lambda>r. \<not> truthy (ai_error_of r)) results in
      if length successfulResults = 0 then Inr ''No successful AI assessments to report.''
      else report successfulResults)"

section \<open>Pages for the fallback scores\<close>

text \<open>
  A page on which every query of the observability analyzer succeeds and finds nothing:
  no storage, no cookie, a document still loading, no element of any kind.
\<close>

definition bare_observability_page :: observability_page where
  "bare_observability_page =
     \<lparr> obs_stateData = Inr \<lparr> localStorage = 0, sessionStorage = 0, cookies = False,
                               readyState = ''loading'' \<rparr>,
       obs_dataTestElements = Inr 0, obs_errorElements = Inr 0, obs_visualElements = Inr 0 \<rparr>"

text \<open>The inventory page, where the count of the visual elements times out.\<close>

definition visual_timeout_page :: observability_page where
  "visual_timeout_page =
     (pg_observability inventory_page)
       \<lparr> obs_visualElements := Inl (Error ''locator.count: Timeout 30000ms exceeded.'') \<rparr>"

section \<open>A page for the AI scorer\<close>

text \<open>
  A sparse page: two \<^verbatim>\<open>data-test\<close> elements of one category, no storage, no
  image, no button, two text inputs that take the typed value.
\<close>

definition sparse_ai_page :: ai_page where
  "sparse_ai_page =
     \<lparr> ap_startDebugSession = Inr None,
       ap_login = Inr (),
       ap_loginSuccess = True,
       ap_debugSessions = (\<lambda>id. None),
       ap_observability =
         \<lparr> aio_smartElements =
             \<lparr> se_total = 50, se_testable = 4, se_observable = 3, se_interactive = 4,
               se_dataTest =
                 [\<lparr> el_testId = ''username'', el_tagName = ''input'', el_role = ''none'',
                     el_category = ''form'' \<rparr>,
                  \<lparr> el_testId = ''login-button'', el_tagName = ''input'', el_role = ''none'',
                     el_category = ''form'' \<rparr>] \<rparr>,
           aio_stateCapabilities =
             Inr \<lparr> cap_localStorage = False, cap_sessionStorage = False, cap_cookies = False,
                   cap_browserHistory = True, cap_readyState = ''complete'',
                   cap_customState = False \<rparr>,
           aio_visibleErrors = Inr 0,
           aio_consoleErrors = Inr 0,
           aio_screenshot = Inr (),
           aio_images = Inr 0,
           aio_imagesWithAlt = Inr 0 \<rparr>,
       ap_controllability =
         \<lparr> aic_buttons = Inr 0, aic_inputs = Inr 3, aic_selects = Inr 0, aic_links = Inr 0,
           aic_interactive = Inr 2,
           aic_textInputs = Inr 2, aic_inputValue = Inr ''ai_precision_test_123'',
           aic_clear = Inr (), aic_requiredInputs = Inr 0, aic_typedInputs = Inr 1,
           aic_buttons_isEnabled = Inr [], aic_forms = Inr 1,
           aic_reload = Inr True, aic_elementCount1 = Inr 2, aic_waitForTimeout = Inr (),
           aic_elementCount2 = Inr 2 \<rparr>,
       ap_complexity =
         Inr \<lparr> cm_totalElements = 50, cm_divElements = 10, cm_nestedLevels = 8,
               cm_scriptTags = 3, cm_styleTags = 2 \<rparr>,
       ap_endDebugSession = Inr () \<rparr>"

text \<open>
  Apart from the five principles that \<^verbatim>\<open>runAIAssessment\<close> scores, the object
  is as the constructor made it.
\<close>

definition assessed :: "string list" where
  "assessed = [''observability'', ''controllability'', ''algorithmicSimplicity'',
               ''explainability'', ''decomposability'']"

definition others_untouched :: "number js_object \<Rightarrow> bool" where
  "others_untouched principleScores \<longleftrightarrow>
     map (\<lambda>(principle, score). (principle, if principle \<in> set assessed then 0 else score))
       principleScores = initial_principles"

text \<open>The principle scores of a run of the AI scorer, the five it never scores at 0.\<close>

definition ai_scores_object :: "number \<Rightarrow> number \<Rightarrow> number \<Rightarrow> number \<Rightarrow> number \<Rightarrow> number js_object"
where
  "ai_scores_object obs ctl sim expl dec =
     [(''observability'', obs), (''controllability'', ctl), (''algorithmicSimplicity'', sim),
      (''algorithmicTransparency'', 0), (''algorithmicStability'', 0), (''explainability'', expl),
      (''unbugginess'', 0), (''smallness'', 0), (''decomposability'', dec), (''similarity'', 0)]"

text \<open>The two suggestions that the sparse page earns.\<close>

definition observability_suggestion :: ai_suggestion where
  "observability_suggestion =
     \<lparr> sug_principle = ''Observability'', sug_priority = High,
       sug_suggestion = ''Add more data-test attributes and implement comprehensive state monitoring'',
       sug_aiReasoning = ''AI detected limited element observability and state capture capabilities'' \<rparr>"

definition controllability_suggestion :: ai_suggestion where
  "controllability_suggestion =
     \<lparr> sug_principle = ''Controllability'', sug_priority = High,
       sug_suggestion = ''Improve interaction patterns and ensure reliable element state control'',
       sug_aiReasoning = ''AI analysis shows inconsistent interaction patterns and state management'' \<rparr>"

text \<open>
  A fresh AI scorer, the scorer after one run on the sparse page, and the two results of
  running twice on that page.
\<close>

definition fresh_ai_scorer :: ai_scorer where
  "fresh_ai_scorer = new_ai_scorer ''2025-01-01T00:00:00.000Z''"

definition first_ai_run :: "ai_result \<times> ai_scorer" where
  "first_ai_run = runAIAssessment fresh_ai_scorer sparse_ai_page ''standard_user''"

definition second_ai_run :: "ai_result \<times> ai_scorer" where
  "second_ai_run = runAIAssessment (snd first_ai_run) sparse_ai_page ''standard_user''"

definition sparse_result :: "ai_suggestion list \<Rightarrow> ai_completed" where
  "sparse_result recommendations =
     \<lparr> air_userType = ''standard_user'', air_timestamp = ''2025-01-01T00:00:00.000Z'',
       air_overallScore = Some 35,
       air_principleScores = ai_scores_object 33 68 85 78 82,
       air_grade = ''F (Not AI-Ready)'',
       air_recommendations = recommendations \<rparr>"

section \<open>Facts about sums and complete maps\<close>

lemma foldl_plus_acc:
  "foldl (\<lambda>sum score. sum + score) a xs = a + sum_list (xs :: number list)"
  by (induction xs arbitrary: a) (simp_all add: add.assoc)

lemma reduce_sum_sum_list: "reduce_sum xs = sum_list xs"
  by (simp add: reduce_sum_def foldl_plus_acc)

lemma distinct_principleNames: "distinct principleNames"
  by (simp add: principleNames_def)

lemma length_principleNames: "length principleNames = 10"
  by (simp add: principleNames_def)

lemma complete_map_length:
  assumes "complete_map obj"
  shows "length obj = 10"
proof -
  have "length obj = length (Object_keys obj)"
    by (simp add: Object_keys_def)
  also have "\<dots> = card (set (Object_keys obj))"
    using assms distinct_card [of "Object_keys obj"] by (simp add: complete_map_def)
  also have "\<dots> = card (set principleNames)"
    using assms by (simp add: complete_map_def)
  also have "\<dots> = 10"
    using distinct_principleNames length_principleNames by (simp add: distinct_card)
  finally show ?thesis .
qed

lemma complete_map_initial: "complete_map initial_principles"
  by (simp add: complete_map_def initial_principles_def Object_keys_def comp_def
      distinct_principleNames)

lemma Math_round_iff:
  "Math_round x = r \<longleftrightarrow> of_int r - 1 / 2 \<le> x \<and> x < of_int r + 1 / 2"
  unfolding Math_round_def floor_eq_iff by auto

section \<open>The overall score is the rounded mean\<close>

text \<open>
  C1.  For a complete map of principle scores the overall score of
  \<^verbatim>\<open>runCompleteAnalysis\<close> and of \<^verbatim>\<open>calculateOverallScore\<close> is the
  integer nearest to the unweighted arithmetic mean of the scores, a mean exactly halfway
  between two integers going to the upper one: it is the integer \<open>r\<close> with
  \<open>r - 1/2 \<le> mean < r + 1/2\<close>.
\<close>

theorem overallScore_is_rounded_mean:
  assumes "complete_map principles"
  shows "(overallScore_complete principles = r \<longleftrightarrow>
            of_int r - 1 / 2 \<le> sum_list (map snd principles) / of_nat (length principles) \<and>
            sum_list (map snd principles) / of_nat (length principles) < of_int r + 1 / 2)
       \<and> (calculateOverallScore principles = Some r \<longleftrightarrow>
            of_int r - 1 / 2 \<le> sum_list (map snd principles) / of_nat (length principles) \<and>
            sum_list (map snd principles) / of_nat (length principles) < of_int r + 1 / 2)"
proof -
  have len: "length principles = 10"
    using assms by (rule complete_map_length)
  have nonempty: "principles \<noteq> []"
    using len by auto
  have complete: "overallScore_complete principles =
      Math_round (sum_list (map snd principles) / of_nat (length principles))"
    by (simp add: overallScore_complete_def Object_values_def reduce_sum_sum_list len)
  have scorecard: "calculateOverallScore principles =
      Some (Math_round (sum_list (map snd principles) / of_nat (length principles)))"
    using nonempty
    by (simp add: calculateOverallScore_def Object_values_def reduce_sum_sum_list Let_def)
  show ?thesis
    unfolding complete scorecard option.inject Math_round_iff by simp
qed

lemma complete_map_example: "complete_map example_principles"
  by (simp add: complete_map_def example_principles_def Object_keys_def principleNames_def)

lemma mean_example:
  "sum_list (map snd example_principles) / of_nat (length example_principles) = 149 / 2"
  by (simp add: example_principles_def)

theorem overallScore_is_rounded_mean_witness:
  "complete_map example_principles
   \<and> overallScore_complete example_principles = 75
   \<and> calculateOverallScore example_principles = Some 75"
  using overallScore_is_rounded_mean [OF complete_map_example, of 75]
  unfolding mean_example
  by (simp add: complete_map_example)

section \<open>Grades are a step function of the score\<close>

text \<open>
  C2 (as amended).  \<^verbatim>\<open>getGrade\<close>, in the comprehensive analyzer, the quick
  scorer and the scorecard, depends on the score alone and has the boundaries 90, 80, 70
  and 60: at least 90 gives A, at least 80 B, at least 70 C, at least 60 D and anything
  lower F.  \<^verbatim>\<open>getAIGrade\<close> has the same boundaries and one more: from 95 on
  the grade is A+, and A only from 90 up to 95.
\<close>

theorem grade_step_function:
  "(90 \<le> s \<longrightarrow> getGrade s = ''A (Excellent)'' \<and> getGrade_scorecard s = ''(A)'')
   \<and> (80 \<le> s \<and> s < 90 \<longrightarrow> getGrade s = ''B (Good)'' \<and> getGrade_scorecard s = ''(B)'')
   \<and> (70 \<le> s \<and> s < 80 \<longrightarrow> getGrade s = ''C (Average)'' \<and> getGrade_scorecard s = ''(C)'')
   \<and> (60 \<le> s \<and> s < 70 \<longrightarrow>
        getGrade s = ''D (Below Average)'' \<and> getGrade_scorecard s = ''(D)'')
   \<and> (s < 60 \<longrightarrow> getGrade s = ''F (Poor)'' \<and> getGrade_scorecard s = ''(F)'')
   \<and> (95 \<le> s \<longrightarrow> getAIGrade s = ''A+ (AI-Optimized)'')
   \<and> (90 \<le> s \<and> s < 95 \<longrightarrow> getAIGrade s = ''A (Excellent for AI)'')
   \<and> (80 \<le> s \<and> s < 90 \<longrightarrow> getAIGrade s = ''B (Good for AI)'')
   \<and> (70 \<le> s \<and> s < 80 \<longrightarrow> getAIGrade s = ''C (Average for AI)'')
   \<and> (60 \<le> s \<and> s < 70 \<longrightarrow> getAIGrade s = ''D (Below AI Standards)'')
   \<and> (s < 60 \<longrightarrow> getAIGrade s = ''F (Not AI-Ready)'')"
  by (simp add: getGrade_def getGrade_scorecard_def getAIGrade_def)

theorem grade_step_function_witness:
  "getGrade 90 = ''A (Excellent)'' \<and> getGrade_scorecard 90 = ''(A)''
   \<and> getGrade 89 = ''B (Good)'' \<and> getGrade_scorecard 89 = ''(B)''
   \<and> getGrade 70 = ''C (Average)'' \<and> getGrade_scorecard 70 = ''(C)''
   \<and> getGrade 60 = ''D (Below Average)'' \<and> getGrade_scorecard 60 = ''(D)''
   \<and> getGrade 59 = ''F (Poor)'' \<and> getGrade_scorecard 59 = ''(F)''
   \<and> getAIGrade 95 = ''A+ (AI-Optimized)''
   \<and> getAIGrade 90 = ''A (Excellent for AI)''
   \<and> getAIGrade 89 = ''B (Good for AI)''
   \<and> getAIGrade 79 = ''C (Average for AI)''
   \<and> getAIGrade 60 = ''D (Below AI Standards)''
   \<and> getAIGrade 59 = ''F (Not AI-Ready)''"
  using grade_step_function [of 90] grade_step_function [of 89] grade_step_function [of 70]
    grade_step_function [of 60] grade_step_function [of 59] grade_step_function [of 95]
    grade_step_function [of 79]
  by simp

text \<open>
  The sentence of the specification gives every score of at least 90 the grade of 90.  The AI grade of
  95 is another one.
\<close>

theorem ai_grade_counterexample:
  "getAIGrade 90 = ''A (Excellent for AI)'' \<and> getAIGrade 95 = ''A+ (AI-Optimized)''
   \<and> getAIGrade 95 \<noteq> getAIGrade 90"
  by (simp add: getAIGrade_def)

section \<open>Ranges of the ten analyzers\<close>

lemma await_range:
  assumes "\<And>v. m = Inr v \<Longrightarrow> \<forall>s. f v = Inr s \<longrightarrow> P s"
  shows "\<forall>s. await m f = Inr s \<longrightarrow> P s"
  using assms by (cases m) (simp_all add: await_def)

lemma try_catch_range:
  assumes "\<forall>s. body = Inr s \<longrightarrow> lo \<le> s \<and> s \<le> hi" and "lo \<le> d" and "d \<le> (hi :: number)"
  shows "\<exists>s. try_catch body (\<lambda>error. Inr d) = Inr s \<and> lo \<le> s \<and> s \<le> hi"
  using assms by (cases body) (simp_all add: try_catch_def)

lemma nonneg_Inr: "nonneg m \<Longrightarrow> m = Inr v \<Longrightarrow> 0 \<le> v"
  by (simp add: nonneg_def)

lemma Math_floor_nonneg: "0 \<le> x \<Longrightarrow> 0 \<le> Math_floor x"
  by (simp add: Math_floor_def)

lemma networkScore_of_range:
  "\<forall>s. networkScore_of debugSessionId sessions = Inr s \<longrightarrow> 5 \<le> s \<and> s \<le> 15"
  by (auto simp: networkScore_of_def await_def split: if_splits option.splits sum.splits)

lemma analyzeObservability_body_range:
  assumes "nonneg (obs_dataTestElements page)" and "nonneg (obs_visualElements page)"
  shows "\<forall>s. analyzeObservability_body page debugSessionId sessions = Inr s
             \<longrightarrow> 0 \<le> s \<and> s \<le> 100"
  unfolding analyzeObservability_body_def Let_def
  apply (intro await_range)
  subgoal premises q for stateData dataTestElements errorElements visualElements networkScore
  proof -
    have "0 \<le> dataTestElements" "0 \<le> visualElements"
      using assms q by (auto dest: nonneg_Inr)
    moreover from this have "0 \<le> Math_floor (dataTestElements * (5 / 2))"
      by (intro Math_floor_nonneg) simp
    moreover have "5 \<le> networkScore \<and> networkScore \<le> 15"
      using q networkScore_of_range by blast
    ultimately show ?thesis
      by (auto simp: min_def)
  qed
  done

lemma analyzeControllability_body_range:
  assumes "nonneg (ctl_interactiveElements page)" and "nonneg (ctl_buttons page)"
    and "nonneg (ctl_links page)"
  shows "\<forall>s. analyzeControllability_body page = Inr s \<longrightarrow> 0 \<le> s \<and> s \<le> 100"
  unfolding analyzeControllability_body_def Let_def
  apply (intro await_range)
  subgoal premises q for inputFields_length interactiveElements same_url buttons links
  proof -
    have nn: "0 \<le> interactiveElements" "0 \<le> buttons" "0 \<le> links"
      using assms q by (auto dest: nonneg_Inr)
    define reliabilityScore where "reliabilityScore = min 20 ((buttons + links) * (3 / 2))"
    have "0 \<le> reliabilityScore \<and> reliabilityScore \<le> 20"
      using nn by (simp add: reliabilityScore_def)
    then show ?thesis
      unfolding reliabilityScore_def [symmetric]
      using nn by (auto simp: min_def split: sum.splits)
  qed
  done

lemma analyzeAlgorithmicSimplicity_body_range:
  assumes "nonneg (sim_headings page)" and "nonneg (sim_navigation page)"
  shows "\<forall>s. analyzeAlgorithmicSimplicity_body page = Inr s \<longrightarrow> 0 \<le> s \<and> s \<le> 100"
  unfolding analyzeAlgorithmicSimplicity_body_def Let_def
  apply (intro await_range)
  subgoal premises q for totalElements forms buttons headings navigation
  proof -
    have "0 \<le> headings" "0 \<le> navigation"
      using assms q by (auto dest: nonneg_Inr)
    then show ?thesis
      by (auto simp: min_def)
  qed
  done

lemma analyzeAlgorithmicTransparency_body_range:
  assumes "nonneg (tra_visibleFeedback page)" and "nonneg (tra_labels page)"
    and "nonneg (tra_tooltips page)"
  shows "\<forall>s. analyzeAlgorithmicTransparency_body page = Inr s \<longrightarrow> 0 \<le> s \<and> s \<le> 100"
  unfolding analyzeAlgorithmicTransparency_body_def Let_def
  apply (intro await_range)
  subgoal premises q for visibleFeedback labels tooltips consoleErrors
  proof -
    have "0 \<le> visibleFeedback" "0 \<le> labels" "0 \<le> tooltips"
      using assms q by (auto dest: nonneg_Inr)
    then show ?thesis
      by (auto simp: min_def)
  qed
  done

lemma dataTestQuality_fold_nonneg:
  "0 \<le> a \<Longrightarrow>
   0 \<le> foldl (\<lambda>qualityScore testId.
                  let qualityScore =
                        (if CHR ''-'' \<in> set testId \<or> CHR ''_'' \<in> set testId
                         then qualityScore + 2 else qualityScore) in
                  (if length testId > 5 then qualityScore + 1 else qualityScore))
               (a :: number) testIds"
  by (induction testIds arbitrary: a) (simp_all add: Let_def)

lemma dataTestQuality_of_range: "0 \<le> dataTestQuality_of testIds \<and> dataTestQuality_of testIds \<le> 35"
  using dataTestQuality_fold_nonneg [of 0 testIds] by (simp add: dataTestQuality_of_def)

lemma analyzeAlgorithmicStability_body_range:
  assumes "nonneg (sta_consistentElements page)"
  shows "\<forall>s. analyzeAlgorithmicStability_body page = Inr s \<longrightarrow> 0 \<le> s \<and> s \<le> 100"
  unfolding analyzeAlgorithmicStability_body_def Let_def
  apply (intro await_range)
  subgoal premises q for initialElementCount u1 u2 reloadElementCount testIds consistentElements
  proof -
    have "0 \<le> consistentElements"
      using assms q by (auto dest: nonneg_Inr)
    then show ?thesis
      using dataTestQuality_of_range [of testIds] by (auto simp: min_def)
  qed
  done

lemma analyzeExplainability_body_range:
  assumes "nonneg (exp_semanticElements page)" and "nonneg (exp_actualLabels page)"
    and "nonneg (exp_altTexts page)" and "nonneg (exp_ariaElements page)"
  shows "\<forall>s. analyzeExplainability_body page = Inr s \<longrightarrow> 0 \<le> s \<and> s \<le> 100"
  unfolding analyzeExplainability_body_def Let_def
  apply (intro await_range)
  subgoal premises q
    for semanticElements labeledInputs actualLabels altTexts totalImages ariaElements
  proof -
    have nn: "0 \<le> semanticElements" "0 \<le> actualLabels" "0 \<le> altTexts" "0 \<le> ariaElements"
      using assms q by (auto dest: nonneg_Inr)
    define imageScore where
      "imageScore = (if totalImages > 0 then min 15 ((altTexts / totalImages) * 15) else 0)"
    have "0 \<le> imageScore \<and> imageScore \<le> 15"
      using nn by (simp add: imageScore_def)
    then show ?thesis
      unfolding imageScore_def [symmetric] using nn by (auto simp: min_def)
  qed
  done

lemma analyzeUnbugginess_body_range:
  assumes "nonneg (unb_jsErrors page)" and "nonneg (unb_consoleErrors page)"
    and "nonneg (unb_brokenImages page)"
  shows "\<forall>s. analyzeUnbugginess_body page = Inr s \<longrightarrow> 0 \<le> s \<and> s \<le> 100"
  unfolding analyzeUnbugginess_body_def Let_def
  apply (intro await_range)
  subgoal premises q for jsErrors consoleErrors errorElements brokenImages
  proof -
    have "0 \<le> jsErrors" "0 \<le> consoleErrors" "0 \<le> brokenImages"
      using assms q by (auto dest: nonneg_Inr)
    then show ?thesis
      by (auto simp: min_def)
  qed
  done

lemma analyzeSmallness_body_range:
  assumes "nonneg (sma_testableElements page)"
  shows "\<forall>s. analyzeSmallness_body page = Inr s \<longrightarrow> 0 \<le> s \<and> s \<le> 100"
  unfolding analyzeSmallness_body_def Let_def
  apply (intro await_range)
  subgoal premises q for totalElements testableElements contentSize
  proof -
    have "0 \<le> testableElements"
      using assms q by (auto dest: nonneg_Inr)
    then show ?thesis
      by (auto simp: min_def)
  qed
  done

lemma analyzeDecomposability_body_range:
  assumes "nonneg (dec_containers page)" and "nonneg (dec_isolatedElements page)"
    and "nonneg (dec_forms page)" and "nonneg (dec_modules page)"
  shows "\<forall>s. analyzeDecomposability_body page = Inr s \<longrightarrow> 0 \<le> s \<and> s \<le> 100"
  unfolding analyzeDecomposability_body_def Let_def
  apply (intro await_range)
  subgoal premises q for containers isolatedElements forms modules
  proof -
    have nn: "0 \<le> containers" "0 \<le> isolatedElements" "0 \<le> forms" "0 \<le> modules"
      using assms q by (auto dest: nonneg_Inr)
    then have "0 \<le> Math_floor (modules / 3)"
      by (intro Math_floor_nonneg) simp
    then show ?thesis
      using nn by (auto simp: min_def)
  qed
  done

lemma analyzeSimilarity_body_range:
  assumes "nonneg_patterns (sml_standardElements page)"
  shows "\<forall>s. analyzeSimilarity_body page = Inr s \<longrightarrow> 0 \<le> s \<and> s \<le> 100"
  unfolding analyzeSimilarity_body_def Let_def
  apply (intro await_range)
  subgoal premises q for standardElements familiarTech conventions
  proof -
    have "0 \<le> pat_buttons standardElements" "0 \<le> pat_forms standardElements"
      "0 \<le> pat_navigation standardElements" "0 \<le> pat_headings standardElements"
      using assms q by (simp_all add: nonneg_patterns_def)
    then show ?thesis
      by (auto simp: min_def)
  qed
  done

lemma try_catch_range_all:
  assumes "\<forall>s. body = Inr s \<longrightarrow> P s" and "P d"
  shows "\<forall>s. try_catch body (\<lambda>error. Inr d) = Inr s \<longrightarrow> P s"
  using assms by (cases body) (simp_all add: try_catch_def)

lemma try_catch_returns: "\<exists>s. try_catch body (\<lambda>error. Inr d) = Inr s"
  by (cases body) (simp_all add: try_catch_def)

lemma returns_in_range:
  assumes "\<exists>s. m = Inr s" and "\<forall>s. m = Inr s \<longrightarrow> lo \<le> s \<and> s \<le> hi"
  shows "\<exists>s. m = Inr s \<and> lo \<le> s \<and> s \<le> (hi :: number)"
  using assms by blast

lemma analyzeObservability_range:
  assumes "nonneg (obs_dataTestElements page)" and "nonneg (obs_visualElements page)"
  shows "\<exists>s. analyzeObservability page debugSessionId sessions = Inr s \<and> 0 \<le> s \<and> s \<le> 100"
  unfolding analyzeObservability_def
  by (rule try_catch_range [OF analyzeObservability_body_range]) (use assms in simp_all)

lemma analyzeControllability_range:
  assumes "nonneg (ctl_interactiveElements page)" and "nonneg (ctl_buttons page)"
    and "nonneg (ctl_links page)"
  shows "\<exists>s. analyzeControllability page = Inr s \<and> 0 \<le> s \<and> s \<le> 100"
  unfolding analyzeControllability_def
  by (rule try_catch_range [OF analyzeControllability_body_range]) (use assms in simp_all)

lemma analyzeAlgorithmicSimplicity_range:
  assumes "nonneg (sim_headings page)" and "nonneg (sim_navigation page)"
  shows "\<exists>s. analyzeAlgorithmicSimplicity page = Inr s \<and> 0 \<le> s \<and> s \<le> 100"
  unfolding analyzeAlgorithmicSimplicity_def
  by (rule try_catch_range [OF analyzeAlgorithmicSimplicity_body_range])
    (use assms in simp_all)

lemma analyzeAlgorithmicTransparency_range:
  assumes "nonneg (tra_visibleFeedback page)" and "nonneg (tra_labels page)"
    and "nonneg (tra_tooltips page)"
  shows "\<exists>s. analyzeAlgorithmicTransparency page = Inr s \<and> 0 \<le> s \<and> s \<le> 100"
  unfolding analyzeAlgorithmicTransparency_def
  by (rule try_catch_range [OF analyzeAlgorithmicTransparency_body_range])
    (use assms in simp_all)

lemma analyzeAlgorithmicStability_range:
  assumes "nonneg (sta_consistentElements page)"
  shows "\<exists>s. analyzeAlgorithmicStability page = Inr s \<and> 0 \<le> s \<and> s \<le> 100"
  unfolding analyzeAlgorithmicStability_def
  by (rule try_catch_range [OF analyzeAlgorithmicStability_body_range])
    (use assms in simp_all)

lemma analyzeExplainability_range:
  assumes "nonneg (exp_semanticElements page)" and "nonneg (exp_actualLabels page)"
    and "nonneg (exp_altTexts page)" and "nonneg (exp_ariaElements page)"
  shows "\<exists>s. analyzeExplainability page = Inr s \<and> 0 \<le> s \<and> s \<le> 100"
  unfolding analyzeExplainability_def
  by (rule try_catch_range [OF analyzeExplainability_body_range]) (use assms in simp_all)

lemma analyzeUnbugginess_range:
  assumes "nonneg (unb_jsErrors page)" and "nonneg (unb_consoleErrors page)"
    and "nonneg (unb_brokenImages page)"
  shows "\<exists>s. analyzeUnbugginess page = Inr s \<and> 0 \<le> s \<and> s \<le> 100"
  unfolding analyzeUnbugginess_def
  by (rule try_catch_range [OF analyzeUnbugginess_body_range]) (use assms in simp_all)

lemma analyzeSmallness_range:
  assumes "nonneg (sma_testableElements page)"
  shows "\<exists>s. analyzeSmallness page = Inr s \<and> 0 \<le> s \<and> s \<le> 100"
  unfolding analyzeSmallness_def
  by (rule try_catch_range [OF analyzeSmallness_body_range]) (use assms in simp_all)

lemma analyzeDecomposability_range:
  assumes "nonneg (dec_containers page)" and "nonneg (dec_isolatedElements page)"
    and "nonneg (dec_forms page)" and "nonneg (dec_modules page)"
  shows "\<exists>s. analyzeDecomposability page = Inr s \<and> 0 \<le> s \<and> s \<le> 100"
  unfolding analyzeDecomposability_def
  by (rule try_catch_range [OF analyzeDecomposability_body_range]) (use assms in simp_all)

lemma analyzeSimilarity_range:
  assumes "nonneg_patterns (sml_standardElements page)"
  shows "\<exists>s. analyzeSimilarity page = Inr s \<and> 0 \<le> s \<and> s \<le> 100"
  unfolding analyzeSimilarity_def
  by (rule try_catch_range [OF analyzeSimilarity_body_range]) (use assms in simp_all)

lemma analyze_all_in_range:
  assumes "counts_nonneg page"
  shows "list_all (\<lambda>(principle, outcome). \<exists>s. outcome = Inr s \<and> 0 \<le> s \<and> s \<le> 100)
           (analyze_all page debugSessionId)"
  using assms unfolding counts_nonneg_def analyze_all_def
  by (simp add: analyzeObservability_range analyzeControllability_range
      analyzeAlgorithmicSimplicity_range analyzeAlgorithmicTransparency_range
      analyzeAlgorithmicStability_range analyzeExplainability_range analyzeUnbugginess_range
      analyzeSmallness_range analyzeDecomposability_range analyzeSimilarity_range)

section \<open>Ranges of the five scorers of the AI scorer\<close>

lemma analyzeDataTestAttributes_range:
  "0 \<le> analyzeDataTestAttributes els \<and> analyzeDataTestAttributes els \<le> 30"
proof -
  have "0 \<le> Math_floor (of_nat (length els) / 2)"
    by (intro Math_floor_nonneg) simp
  then show ?thesis
    by (auto simp: analyzeDataTestAttributes_def Let_def min_def)
qed

lemma analyzeStateCapture_range:
  "\<forall>s. analyzeStateCapture evaluate = Inr s \<longrightarrow> 0 \<le> s \<and> s \<le> 25"
  unfolding analyzeStateCapture_def Let_def
  by (intro try_catch_range_all await_range) (auto simp: min_def)

lemma analyzeErrorVisibility_range:
  "\<forall>s. analyzeErrorVisibility smartElements v c = Inr s \<longrightarrow> 0 \<le> s \<and> s \<le> 20"
  unfolding analyzeErrorVisibility_def Let_def
  by (intro try_catch_range_all await_range) (auto simp: min_def)

lemma analyzeVisualCapabilities_range:
  "\<forall>s. analyzeVisualCapabilities shot i a = Inr s \<longrightarrow> 0 \<le> s \<and> s \<le> 15"
  unfolding analyzeVisualCapabilities_def Let_def
  by (intro try_catch_range_all await_range) (auto simp: min_def)

lemma analyzeNetworkMonitoring_range:
  "\<forall>s. analyzeNetworkMonitoring debugSessionId sessions = Inr s \<longrightarrow> 0 \<le> s \<and> s \<le> 10"
  unfolding analyzeNetworkMonitoring_def
  by (rule try_catch_range_all)
    (auto simp: await_def split: option.splits sum.splits)

lemma calculateIntelligenceBonus_range:
  "0 \<le> calculateIntelligenceBonus insights \<and> calculateIntelligenceBonus insights \<le> 5"
  by (simp add: calculateIntelligenceBonus_def Let_def)

lemma scoreAIObservability_range:
  "\<exists>s. scoreAIObservability page debugSessionId sessions = Inr s \<and> 0 \<le> s \<and> s \<le> 100"
proof (rule returns_in_range)
  show "\<exists>s. scoreAIObservability page debugSessionId sessions = Inr s"
    unfolding scoreAIObservability_def by (rule try_catch_returns)
  show "\<forall>s. scoreAIObservability page debugSessionId sessions = Inr s \<longrightarrow> 0 \<le> s \<and> s \<le> 100"
    unfolding scoreAIObservability_def Let_def
    apply (intro try_catch_range_all await_range)
    subgoal premises q for stateScore errorScore visualScore networkScore
      using q analyzeStateCapture_range analyzeErrorVisibility_range
        analyzeVisualCapabilities_range analyzeNetworkMonitoring_range
        analyzeDataTestAttributes_range [of "se_dataTest (aio_smartElements page)"]
        calculateIntelligenceBonus_range [of "aio_smartElements page"]
      by (fastforce simp: min_def)
    by simp
qed

lemma analyzeInputPrecision_range:
  "\<forall>s. analyzeInputPrecision page = Inr s \<longrightarrow> 0 \<le> s \<and> s \<le> 30"
  unfolding analyzeInputPrecision_def Let_def
  apply (intro try_catch_range_all await_range)
  subgoal premises q for inputs_length score requiredInputs typedInputs
  proof -
    have "0 \<le> score"
      using q(2) by (auto simp: await_def split: if_splits sum.splits)
    then show ?thesis
      by (auto simp: min_def)
  qed
  by simp

lemma analyzeStateControl_range:
  "\<forall>s. analyzeStateControl page patterns = Inr s \<longrightarrow> 0 \<le> s \<and> s \<le> 25"
  unfolding analyzeStateControl_def Let_def
  by (intro try_catch_range_all await_range) (auto simp: min_def)

lemma analyzeDeterminism_range:
  "\<forall>s. analyzeDeterminism page = Inr s \<longrightarrow> 0 \<le> s \<and> s \<le> 20"
  unfolding analyzeDeterminism_def Let_def
  by (intro try_catch_range_all await_range) (auto simp: min_def)

lemma scoreAIControllability_range:
  "\<exists>s. scoreAIControllability page = Inr s \<and> 0 \<le> s \<and> s \<le> 100"
proof (rule returns_in_range)
  show "\<exists>s. scoreAIControllability page = Inr s"
    unfolding scoreAIControllability_def by (rule try_catch_returns)
  show "\<forall>s. scoreAIControllability page = Inr s \<longrightarrow> 0 \<le> s \<and> s \<le> 100"
    unfolding scoreAIControllability_def Let_def
    apply (intro try_catch_range_all await_range)
    subgoal premises q
      for interactionPatterns inputScore stateControlScore determinismScore reliabilityScore
        accessibilityScore
      using q analyzeInputPrecision_range analyzeStateControl_range analyzeDeterminism_range
      by (fastforce simp: analyzeInteractionReliability_def analyzeAccessibilityIntegration_def)
    by simp
qed

lemma analyzeDOMComplexity_range:
  "0 \<le> analyzeDOMComplexity metrics \<and> analyzeDOMComplexity metrics \<le> 40"
  by (simp add: analyzeDOMComplexity_def Let_def)

lemma analyzePredictability_range:
  "0 \<le> analyzePredictability metrics \<and> analyzePredictability metrics \<le> 10"
  by (simp add: analyzePredictability_def Let_def)

lemma scoreAIAlgorithmicSimplicity_range:
  "\<exists>s. scoreAIAlgorithmicSimplicity evaluate = Inr s \<and> 0 \<le> s \<and> s \<le> 100"
proof (rule returns_in_range)
  show "\<exists>s. scoreAIAlgorithmicSimplicity evaluate = Inr s"
    unfolding scoreAIAlgorithmicSimplicity_def by (rule try_catch_returns)
  show "\<forall>s. scoreAIAlgorithmicSimplicity evaluate = Inr s \<longrightarrow> 0 \<le> s \<and> s \<le> 100"
    unfolding scoreAIAlgorithmicSimplicity_def Let_def
    apply (intro try_catch_range_all await_range)
    subgoal premises q for complexityMetrics patternScore semanticScore
      using q analyzeDOMComplexity_range [of complexityMetrics]
        analyzePredictability_range [of complexityMetrics]
      by (auto simp: analyzeInteractionPatternSimplicity_def analyzeSemanticStructure_def)
    by simp
qed

lemma scoreAIExplainability_value: "scoreAIExplainability = Inr 78"
  by (simp add: scoreAIExplainability_def try_catch_def)

lemma scoreAIDecomposability_value: "scoreAIDecomposability = Inr 82"
  by (simp add: scoreAIDecomposability_def try_catch_def)

lemma score_all_in_range:
  "list_all (\<lambda>(principle, outcome). \<exists>s. outcome = Inr s \<and> 0 \<le> s \<and> s \<le> 100)
     (score_all page debugSessionId)"
  unfolding score_all_def
  by (simp add: scoreAIObservability_range scoreAIControllability_range
      scoreAIAlgorithmicSimplicity_range scoreAIExplainability_value
      scoreAIDecomposability_value)

section \<open>Every principle score lies between 0 and 100\<close>

text \<open>
  C3 (as amended).  When no count of the page is negative, each of the ten analyzers of
  the comprehensive analyzer returns, without throwing, a score between 0 and 100.  Each
  of the five scorers of the AI scorer does so on every page.
\<close>

theorem principle_scores_in_range:
  "(counts_nonneg page \<longrightarrow>
      (\<forall>(principle, outcome) \<in> set (analyze_all page debugSessionId).
         \<exists>s. outcome = Inr s \<and> 0 \<le> s \<and> s \<le> 100))
   \<and> (\<forall>(principle, outcome) \<in> set (score_all ai_page ai_debugSessionId).
         \<exists>s. outcome = Inr s \<and> 0 \<le> s \<and> s \<le> 100)"
  using analyze_all_in_range [of page debugSessionId]
    score_all_in_range [of ai_page ai_debugSessionId]
  by (simp add: list_all_iff)

lemma counts_nonneg_inventory_page: "counts_nonneg inventory_page"
  by (simp add: counts_nonneg_def inventory_page_def nonneg_def nonneg_patterns_def)

theorem principle_scores_in_range_witness:
  "counts_nonneg inventory_page
   \<and> list_all (\<lambda>(principle, outcome). \<exists>s. outcome = Inr s \<and> 0 \<le> s \<and> s \<le> 100)
       (analyze_all inventory_page (Some ''session-1''))
   \<and> analyzeObservability (pg_observability inventory_page) (Some ''session-1'')
        (pg_debugSessions inventory_page) = Inr 75"
proof -
  have "list_all (\<lambda>(principle, outcome). \<exists>s. outcome = Inr s \<and> 0 \<le> s \<and> s \<le> 100)
          (analyze_all inventory_page (Some ''session-1''))"
    using principle_scores_in_range [of inventory_page "Some ''session-1''"]
      counts_nonneg_inventory_page
    by (simp add: list_all_iff)
  moreover have "analyzeObservability (pg_observability inventory_page) (Some ''session-1'')
        (pg_debugSessions inventory_page) = Inr 75"
    by (simp add: analyzeObservability_def analyzeObservability_body_def networkScore_of_def
        inventory_page_def try_catch_def await_def Math_floor_def)
  ultimately show ?thesis
    using counts_nonneg_inventory_page by simp
qed

text \<open>
  The sentence of the specification includes negative counts.  With \<open>-100\<close> interactive elements the
  controllability score is \<open>-175\<close>, and with \<open>-100\<close> JavaScript errors the unbugginess
  score is 600.
\<close>

theorem negative_count_counterexample:
  "analyzeControllability negative_controllability_page = Inr (- 175)
   \<and> analyzeUnbugginess negative_unbugginess_page = Inr 600"
  by (simp add: analyzeControllability_def analyzeControllability_body_def
      analyzeUnbugginess_def analyzeUnbugginess_body_def negative_controllability_page_def
      negative_unbugginess_page_def try_catch_def await_def)

section \<open>Which principles get a recommendation\<close>

lemma generateAIRecommendations_acc:
  "foldl (\<lambda>recommendations (principle, score).
            if score < 60 then recommendations @ [recommendation_for principle score]
            else recommendations) acc obj
   = acc @ map (\<lambda>(principle, score). recommendation_for principle score)
             (filter (\<lambda>(principle, score). score < 60) obj)"
  by (induction obj arbitrary: acc) (auto simp: case_prod_beta)

lemma generateAIRecommendations_filter:
  "generateAIRecommendations obj
   = map (\<lambda>(principle, score). recommendation_for principle score)
       (filter (\<lambda>(principle, score). score < 60) obj)"
  by (simp add: generateAIRecommendations_def generateAIRecommendations_acc)

lemma rec_principle_recommendation_for [simp]:
  "rec_principle (recommendation_for principle score) = principle"
  by (simp add: recommendation_for_def Let_def)

lemma generateAIRecommendations_principles:
  "map rec_principle (generateAIRecommendations obj)
   = map fst (filter (\<lambda>(principle, score). score < 60) obj)"
  by (simp add: generateAIRecommendations_filter case_prod_beta comp_def)

lemma generateRecommendations_acc:
  "foldl (\<lambda>recommendations (principle, score).
            if score < 50 then
              recommendations @
                [\<lparr> sr_principle = principle, sr_score = score, sr_priority = High,
                    sr_recommendation = getRecommendationForPrinciple principle score \<rparr>]
            else if score < 70 then
              recommendations @
                [\<lparr> sr_principle = principle, sr_score = score, sr_priority = Medium,
                    sr_recommendation = getRecommendationForPrinciple principle score \<rparr>]
            else recommendations) acc obj
   = acc @ map (\<lambda>(principle, score). scorecard_entry principle score)
             (filter (\<lambda>(principle, score). score < 70) obj)"
  by (induction obj arbitrary: acc) (auto simp: case_prod_beta scorecard_entry_def)

lemma generateRecommendations_principles:
  "map sr_principle (generateRecommendations obj)
   = map fst (filter (\<lambda>(principle, score). score < 70) obj)"
  by (simp add: generateRecommendations_def generateRecommendations_acc case_prod_beta
      comp_def scorecard_entry_def)

lemma filter_key_distinct:
  assumes "distinct (map fst obj)" and "(k, v) \<in> set obj"
  shows "filter (\<lambda>entry. fst entry = k) obj = [(k, v)]"
  using assms
proof (induction obj)
  case Nil
  then show ?case by simp
next
  case (Cons entry obj)
  show ?case
  proof (cases "entry = (k, v)")
    case True
    then have "\<forall>e \<in> set obj. fst e \<noteq> k"
      using Cons.prems(1) by (auto simp: image_iff)
    then have "filter (\<lambda>entry. fst entry = k) obj = []"
      by (simp add: filter_empty_conv)
    then show ?thesis
      using True by simp
  next
    case False
    then have "(k, v) \<in> set obj"
      using Cons.prems(2) by auto
    moreover from this have "fst entry \<noteq> k"
      using Cons.prems(1) by (auto simp: image_iff)
    ultimately show ?thesis
      using Cons.IH Cons.prems(1) by simp
  qed
qed

lemma count_key_distinct:
  assumes "distinct (map fst obj)" and "(k, v) \<in> set obj"
  shows "length (filter (\<lambda>x. x = k) (map fst (filter P obj))) = (if P (k, v) then 1 else 0)"
proof -
  have "filter (\<lambda>x. x = k) (map fst (filter P obj))
        = map fst (filter P (filter (\<lambda>entry. fst entry = k) obj))"
    by (simp add: filter_map comp_def conj_commute)
  then show ?thesis
    by (simp add: filter_key_distinct [OF assms])
qed

lemma count_by_principle:
  "length (filter (\<lambda>r. f r = k) recs) = length (filter (\<lambda>x. x = k) (map f recs))"
  by (simp add: filter_map comp_def)

text \<open>
  C4 (as amended).  In a score object, whose keys are distinct, each principle gets
  exactly one recommendation when its score is below the threshold and none otherwise.
  The threshold of \<^verbatim>\<open>generateRecommendations\<close> of the scorecard is 70; the
  threshold of \<^verbatim>\<open>generateAIRecommendations\<close> of the comprehensive analyzer
  is 60.
\<close>

theorem one_recommendation_below_threshold:
  assumes "distinct (Object_keys obj)" and "(principle, score) \<in> set obj"
  shows "length (filter (\<lambda>r. rec_principle r = principle) (generateAIRecommendations obj))
           = (if score < 60 then 1 else 0)
       \<and> length (filter (\<lambda>r. sr_principle r = principle) (generateRecommendations obj))
           = (if score < 70 then 1 else 0)"
proof -
  have keys: "distinct (map fst obj)"
    using assms(1) by (simp add: Object_keys_def)
  have "length (filter (\<lambda>r. rec_principle r = principle) (generateAIRecommendations obj))
        = length (filter (\<lambda>x. x = principle)
            (map rec_principle (generateAIRecommendations obj)))"
    by (rule count_by_principle)
  also have "\<dots> = (if (\<lambda>(principle, score). score < 60) (principle, score) then 1 else 0)"
    unfolding generateAIRecommendations_principles
    by (rule count_key_distinct [OF keys assms(2)])
  finally have comprehensive:
    "length (filter (\<lambda>r. rec_principle r = principle) (generateAIRecommendations obj))
     = (if score < 60 then 1 else 0)"
    by simp
  have "length (filter (\<lambda>r. sr_principle r = principle) (generateRecommendations obj))
        = length (filter (\<lambda>x. x = principle)
            (map sr_principle (generateRecommendations obj)))"
    by (rule count_by_principle)
  also have "\<dots> = (if (\<lambda>(principle, score). score < 70) (principle, score) then 1 else 0)"
    unfolding generateRecommendations_principles
    by (rule count_key_distinct [OF keys assms(2)])
  finally have scorecard:
    "length (filter (\<lambda>r. sr_principle r = principle) (generateRecommendations obj))
     = (if score < 70 then 1 else 0)"
    by simp
  from comprehensive scorecard show ?thesis
    by (rule conjI)
qed

theorem one_recommendation_below_threshold_witness:
  "distinct (Object_keys borderline_principles)
   \<and> (''observability'', 65) \<in> set borderline_principles
   \<and> length (filter (\<lambda>r. rec_principle r = ''observability'')
        (generateAIRecommendations borderline_principles)) = 0
   \<and> length (filter (\<lambda>r. sr_principle r = ''observability'')
        (generateRecommendations borderline_principles)) = 1"
proof -
  have keys: "distinct (Object_keys borderline_principles)"
    by (simp add: borderline_principles_def Object_keys_def)
  have entry: "(''observability'', 65) \<in> set borderline_principles"
    by (simp add: borderline_principles_def)
  show ?thesis
    using one_recommendation_below_threshold [OF keys entry] keys entry by simp
qed

text \<open>
  The sentence of the specification puts the threshold at 70 for every generator.  At an observability
  score of 65, with every other score at 80 or more, the comprehensive analyzer
  recommends nothing.
\<close>

theorem threshold_counterexample:
  "map_of borderline_principles ''observability'' = Some 65
   \<and> generateAIRecommendations borderline_principles = []"
  by (simp add: borderline_principles_def generateAIRecommendations_filter)

section \<open>The order of the recommendations\<close>














section \<open>Aggregation of any score map\<close>




section \<open>Reports without a successful result\<close>

lemma no_successful_result:
  "(\<forall>r \<in> set results. truthy (err r)) \<Longrightarrow> filter (\<lambda>r. \<not> truthy (err r)) results = []"
  by (simp add: filter_empty_conv)

text \<open>
  C10.  When every result carries an error, that is a truthy \<^verbatim>\<open>error\<close>, each of
  the three report generators returns its fixed sentence: it neither throws nor builds
  any part of a report.
\<close>

theorem report_without_successful_result:
  "((\<forall>r \<in> set quick_results. truthy (quick_error_of r)) \<longrightarrow>
      generateComparisonReport quick_report quick_results
        = Inr ''No successful assessments to report.'')
   \<and> ((\<forall>r \<in> set results. truthy (error_of r)) \<longrightarrow>
      generateComprehensiveReport report results = Inr ''No successful analyses to report.'')
   \<and> ((\<forall>r \<in> set ai_results. truthy (ai_error_of r)) \<longrightarrow>
      generateAIReport ai_report ai_results = Inr ''No successful AI assessments to report.'')"
  by (simp add: generateComparisonReport_def generateComprehensiveReport_def
      generateAIReport_def no_successful_result)

theorem report_without_successful_result_witness:
  "truthy (quick_error_of (QuickFailed ''locked_out_user'' ''Login failed''))
   \<and> generateComparisonReport (\<lambda>successful. Inl (Error ''not reached''))
        [QuickFailed ''locked_out_user'' ''Login failed'']
      = Inr ''No successful assessments to report.''
   \<and> truthy (error_of (Failed ''locked_out_user'' ''Login failed''))
   \<and> generateComprehensiveReport (\<lambda>successful. Inl (Error ''not reached''))
        [Failed ''locked_out_user'' ''Login failed'', Failed ''problem_user'' ''Timeout'']
      = Inr ''No successful analyses to report.''
   \<and> truthy (ai_error_of (AIFailed ''locked_out_user'' ''Login failed''))
   \<and> generateAIReport (\<lambda>successful. Inl (Error ''not reached''))
        [AIFailed ''locked_out_user'' ''Login failed'']
      = Inr ''No successful AI assessments to report.''"
  using report_without_successful_result
    [of "[QuickFailed ''locked_out_user'' ''Login failed'']"
        "\<lambda>successful. Inl (Error ''not reached'')"
        "[Failed ''locked_out_user'' ''Login failed'', Failed ''problem_user'' ''Timeout'']"
        "\<lambda>successful. Inl (Error ''not reached'')"
        "[AIFailed ''locked_out_user'' ''Login failed'']"
        "\<lambda>successful. Inl (Error ''not reached'')"]
  by simp

section \<open>Scoring never throws; what a failing query costs\<close>

lemma analyze_all_returns:
  "list_all (\<lambda>(principle, outcome). \<exists>s. outcome = Inr s) (analyze_all page debugSessionId)"
  by (simp add: analyze_all_def analyzeObservability_def analyzeControllability_def
      analyzeAlgorithmicSimplicity_def analyzeAlgorithmicTransparency_def
      analyzeAlgorithmicStability_def analyzeExplainability_def analyzeUnbugginess_def
      analyzeSmallness_def analyzeDecomposability_def analyzeSimilarity_def
      try_catch_returns)

lemma score_all_returns:
  "list_all (\<lambda>(principle, outcome). \<exists>s. outcome = Inr s) (score_all page debugSessionId)"
  by (simp add: score_all_def scoreAIObservability_def scoreAIControllability_def
      scoreAIAlgorithmicSimplicity_def scoreAIExplainability_def scoreAIDecomposability_def
      try_catch_returns)

lemma analyzeObservability_fallback:
  assumes "obs_stateData page = Inl e \<or> obs_dataTestElements page = Inl e
         \<or> obs_errorElements page = Inl e \<or> obs_visualElements page = Inl e
         \<or> networkScore_of debugSessionId sessions = Inl e"
  shows "analyzeObservability page debugSessionId sessions = Inr 20"
proof -
  have "\<exists>e'. analyzeObservability_body page debugSessionId sessions = Inl e'"
    using assms unfolding analyzeObservability_body_def Let_def await_def
    by (auto split: sum.splits)
  then show ?thesis
    by (auto simp: analyzeObservability_def try_catch_def)
qed

lemma scoreAIObservability_parts:
  assumes "analyzeStateCapture (aio_stateCapabilities page) = Inr stateScore"
    and "analyzeErrorVisibility (aio_smartElements page) (aio_visibleErrors page)
           (aio_consoleErrors page) = Inr errorScore"
    and "analyzeVisualCapabilities (aio_screenshot page) (aio_images page)
           (aio_imagesWithAlt page) = Inr visualScore"
    and "analyzeNetworkMonitoring debugSessionId sessions = Inr networkScore"
  shows "scoreAIObservability page debugSessionId sessions
         = Inr (min 100 (0 + analyzeDataTestAttributes (se_dataTest (aio_smartElements page))
                         + stateScore + errorScore + visualScore + networkScore
                         + calculateIntelligenceBonus (aio_smartElements page)))"
  using assms by (simp add: scoreAIObservability_def Let_def await_def try_catch_def)

lemma analyzeControllability_fallback:
  assumes "ctl_inputFields page = Inl e \<or> ctl_interactiveElements page = Inl e
         \<or> ctl_reload page = Inl e \<or> ctl_buttons page = Inl e \<or> ctl_links page = Inl e"
  shows "analyzeControllability page = Inr 25"
proof -
  have "\<exists>e'. analyzeControllability_body page = Inl e'"
    using assms unfolding analyzeControllability_body_def Let_def await_def
    by (auto split: sum.splits)
  then show ?thesis
    by (auto simp: analyzeControllability_def try_catch_def)
qed

lemma analyzeControllability_fill_fails:
  assumes "ctl_inputFields page = Inr inputFields_length" and "0 < inputFields_length"
    and "ctl_fill_roundtrip page = Inl e"
    and "ctl_interactiveElements page = Inr interactiveElements"
    and "ctl_reload page = Inr same_url"
    and "ctl_buttons page = Inr buttons" and "ctl_links page = Inr links"
  shows "analyzeControllability page
         = Inr (0 + 10 + min 25 (interactiveElements * 2) + (if same_url then 25 else 15)
                + min 20 ((buttons + links) * (3 / 2)))"
  using assms
  by (simp add: analyzeControllability_def analyzeControllability_body_def Let_def await_def
      try_catch_def)

lemma analyzeAlgorithmicSimplicity_fallback:
  assumes "sim_totalElements page = Inl e \<or> sim_forms page = Inl e \<or> sim_buttons page = Inl e
         \<or> sim_headings page = Inl e \<or> sim_navigation page = Inl e"
  shows "analyzeAlgorithmicSimplicity page = Inr 30"
proof -
  have "\<exists>e'. analyzeAlgorithmicSimplicity_body page = Inl e'"
    using assms unfolding analyzeAlgorithmicSimplicity_body_def Let_def await_def
    by (auto split: sum.splits)
  then show ?thesis
    by (auto simp: analyzeAlgorithmicSimplicity_def try_catch_def)
qed

lemma analyzeAlgorithmicTransparency_fallback:
  assumes "tra_visibleFeedback page = Inl e \<or> tra_labels page = Inl e
         \<or> tra_tooltips page = Inl e \<or> tra_consoleErrors page = Inl e"
  shows "analyzeAlgorithmicTransparency page = Inr 35"
proof -
  have "\<exists>e'. analyzeAlgorithmicTransparency_body page = Inl e'"
    using assms unfolding analyzeAlgorithmicTransparency_body_def Let_def await_def
    by (auto split: sum.splits)
  then show ?thesis
    by (auto simp: analyzeAlgorithmicTransparency_def try_catch_def)
qed

lemma analyzeAlgorithmicStability_fallback:
  assumes "sta_initialElementCount page = Inl e \<or> sta_reload page = Inl e
         \<or> sta_waitForPageReady page = Inl e \<or> sta_reloadElementCount page = Inl e
         \<or> sta_dataTestIds page = Inl e \<or> sta_consistentElements page = Inl e"
  shows "analyzeAlgorithmicStability page = Inr 40"
proof -
  have "\<exists>e'. analyzeAlgorithmicStability_body page = Inl e'"
    using assms unfolding analyzeAlgorithmicStability_body_def Let_def await_def
    by (auto split: sum.splits)
  then show ?thesis
    by (auto simp: analyzeAlgorithmicStability_def try_catch_def)
qed

lemma analyzeExplainability_fallback:
  assumes "exp_semanticElements page = Inl e \<or> exp_labeledInputs page = Inl e
         \<or> exp_actualLabels page = Inl e \<or> exp_altTexts page = Inl e
         \<or> exp_totalImages page = Inl e \<or> exp_ariaElements page = Inl e"
  shows "analyzeExplainability page = Inr 25"
proof -
  have "\<exists>e'. analyzeExplainability_body page = Inl e'"
    using assms unfolding analyzeExplainability_body_def Let_def await_def
    by (auto split: sum.splits)
  then show ?thesis
    by (auto simp: analyzeExplainability_def try_catch_def)
qed

lemma analyzeUnbugginess_fallback:
  assumes "unb_jsErrors page = Inl e \<or> unb_consoleErrors page = Inl e
         \<or> unb_errorElements page = Inl e \<or> unb_brokenImages page = Inl e"
  shows "analyzeUnbugginess page = Inr 60"
proof -
  have "\<exists>e'. analyzeUnbugginess_body page = Inl e'"
    using assms unfolding analyzeUnbugginess_body_def Let_def await_def
    by (auto split: sum.splits)
  then show ?thesis
    by (auto simp: analyzeUnbugginess_def try_catch_def)
qed

lemma analyzeSmallness_fallback:
  assumes "sma_totalElements page = Inl e \<or> sma_testableElements page = Inl e
         \<or> sma_contentSize page = Inl e"
  shows "analyzeSmallness page = Inr 45"
proof -
  have "\<exists>e'. analyzeSmallness_body page = Inl e'"
    using assms unfolding analyzeSmallness_body_def Let_def await_def
    by (auto split: sum.splits)
  then show ?thesis
    by (auto simp: analyzeSmallness_def try_catch_def)
qed

lemma analyzeDecomposability_fallback:
  assumes "dec_containers page = Inl e \<or> dec_isolatedElements page = Inl e
         \<or> dec_forms page = Inl e \<or> dec_modules page = Inl e"
  shows "analyzeDecomposability page = Inr 50"
proof -
  have "\<exists>e'. analyzeDecomposability_body page = Inl e'"
    using assms unfolding analyzeDecomposability_body_def Let_def await_def
    by (auto split: sum.splits)
  then show ?thesis
    by (auto simp: analyzeDecomposability_def try_catch_def)
qed

lemma analyzeSimilarity_fallback:
  assumes "sml_standardElements page = Inl e \<or> sml_familiarTech page = Inl e
         \<or> sml_conventions page = Inl e"
  shows "analyzeSimilarity page = Inr 55"
proof -
  have "\<exists>e'. analyzeSimilarity_body page = Inl e'"
    using assms unfolding analyzeSimilarity_body_def Let_def await_def
    by (auto split: sum.splits)
  then show ?thesis
    by (auto simp: analyzeSimilarity_def try_catch_def)
qed

lemma visual_timeout_page_fields:
  "obs_visualElements visual_timeout_page = Inl (Error ''locator.count: Timeout 30000ms exceeded.'')"
  by (simp add: visual_timeout_page_def)

lemma sparse_observability_parts:
  "analyzeDataTestAttributes (se_dataTest (aio_smartElements (ap_observability sparse_ai_page))) = 3"
  "analyzeStateCapture (aio_stateCapabilities (ap_observability sparse_ai_page)) = Inr 10"
  "analyzeErrorVisibility (aio_smartElements (ap_observability sparse_ai_page))
     (aio_visibleErrors (ap_observability sparse_ai_page))
     (aio_consoleErrors (ap_observability sparse_ai_page)) = Inr 5"
  "analyzeVisualCapabilities (aio_screenshot (ap_observability sparse_ai_page))
     (aio_images (ap_observability sparse_ai_page))
     (aio_imagesWithAlt (ap_observability sparse_ai_page)) = Inr 8"
  "analyzeNetworkMonitoring None (\<lambda>id. None) = Inr 5"
  "calculateIntelligenceBonus (aio_smartElements (ap_observability sparse_ai_page)) = 2"
  by (simp_all add: sparse_ai_page_def analyzeDataTestAttributes_def analyzeStateCapture_def
      analyzeErrorVisibility_def analyzeVisualCapabilities_def analyzeNetworkMonitoring_def
      calculateIntelligenceBonus_def ratio_exceeds_def Let_def await_def try_catch_def
      Math_floor_def)

text \<open>
  C7 (as amended).  No analyzer of the comprehensive analyzer and no scorer of the AI
  scorer throws: each returns a score on every page.  Each of the ten analyzers of the
  comprehensive analyzer has one \<^verbatim>\<open>try\<close> around its page queries, whose
  \<^verbatim>\<open>catch\<close> sets the score to a constant: 20 for observability, 25 for
  controllability, 30 for algorithmic simplicity, 35 for algorithmic transparency, 40 for
  algorithmic stability, 25 for explainability, 60 for unbugginess, 45 for smallness, 50
  for decomposability, 55 for similarity.  When a query directly inside that
  \<^verbatim>\<open>try\<close> fails, the analyzer returns its constant in place of all it had
  summed.  The one nested \<^verbatim>\<open>try\<close>, around the fill of the first input field
  in the controllability analyzer, recovers on the spot: a failing fill gives 10 for the
  input part and the other three parts are kept.  In the AI scorer each part of the
  observability score has a fallback of its own (10 for the state capture, 8 for the
  error visibility, 5 for the visual capabilities, 3 for the network monitoring), and the
  score is the sum of the parts and the bonus, capped at 100.
\<close>

theorem scoring_never_throws:
  "list_all (\<lambda>(principle, outcome). \<exists>s. outcome = Inr s) (analyze_all page debugSessionId)
   \<and> list_all (\<lambda>(principle, outcome). \<exists>s. outcome = Inr s)
       (score_all ai_page ai_debugSessionId)
   \<and> (obs_stateData obs = Inl e \<or> obs_dataTestElements obs = Inl e
        \<or> obs_errorElements obs = Inl e \<or> obs_visualElements obs = Inl e
        \<or> networkScore_of debugSessionId sessions = Inl e
       \<longrightarrow> analyzeObservability obs debugSessionId sessions = Inr 20)
   \<and> (ctl_inputFields ctl = Inl e \<or> ctl_interactiveElements ctl = Inl e
        \<or> ctl_reload ctl = Inl e \<or> ctl_buttons ctl = Inl e \<or> ctl_links ctl = Inl e
       \<longrightarrow> analyzeControllability ctl = Inr 25)
   \<and> (ctl_inputFields ctl = Inr inputFields_length \<and> 0 < inputFields_length
        \<and> ctl_fill_roundtrip ctl = Inl e
        \<and> ctl_interactiveElements ctl = Inr interactiveElements
        \<and> ctl_reload ctl = Inr same_url
        \<and> ctl_buttons ctl = Inr buttons \<and> ctl_links ctl = Inr links
       \<longrightarrow> analyzeControllability ctl
           = Inr (0 + 10 + min 25 (interactiveElements * 2) + (if same_url then 25 else 15)
                  + min 20 ((buttons + links) * (3 / 2))))
   \<and> (sim_totalElements sim = Inl e \<or> sim_forms sim = Inl e \<or> sim_buttons sim = Inl e
        \<or> sim_headings sim = Inl e \<or> sim_navigation sim = Inl e
       \<longrightarrow> analyzeAlgorithmicSimplicity sim = Inr 30)
   \<and> (tra_visibleFeedback tra = Inl e \<or> tra_labels tra = Inl e
        \<or> tra_tooltips tra = Inl e \<or> tra_consoleErrors tra = Inl e
       \<longrightarrow> analyzeAlgorithmicTransparency tra = Inr 35)
   \<and> (sta_initialElementCount sta = Inl e \<or> sta_reload sta = Inl e
        \<or> sta_waitForPageReady sta = Inl e \<or> sta_reloadElementCount sta = Inl e
        \<or> sta_dataTestIds sta = Inl e \<or> sta_consistentElements sta = Inl e
       \<longrightarrow> analyzeAlgorithmicStability sta = Inr 40)
   \<and> (exp_semanticElements expl = Inl e \<or> exp_labeledInputs expl = Inl e
        \<or> exp_actualLabels expl = Inl e \<or> exp_altTexts expl = Inl e
        \<or> exp_totalImages expl = Inl e \<or> exp_ariaElements expl = Inl e
       \<longrightarrow> analyzeExplainability expl = Inr 25)
   \<and> (unb_jsErrors unb = Inl e \<or> unb_consoleErrors unb = Inl e
        \<or> unb_errorElements unb = Inl e \<or> unb_brokenImages unb = Inl e
       \<longrightarrow> analyzeUnbugginess unb = Inr 60)
   \<and> (sma_totalElements sma = Inl e \<or> sma_testableElements sma = Inl e
        \<or> sma_contentSize sma = Inl e
       \<longrightarrow> analyzeSmallness sma = Inr 45)
   \<and> (dec_containers dcp = Inl e \<or> dec_isolatedElements dcp = Inl e
        \<or> dec_forms dcp = Inl e \<or> dec_modules dcp = Inl e
       \<longrightarrow> analyzeDecomposability dcp = Inr 50)
   \<and> (sml_standardElements sml = Inl e \<or> sml_familiarTech sml = Inl e
        \<or> sml_conventions sml = Inl e
       \<longrightarrow> analyzeSimilarity sml = Inr 55)
   \<and> analyzeStateCapture (Inl e) = Inr 10
   \<and> analyzeErrorVisibility smartElements (Inl e) consoleErrors = Inr 8
   \<and> analyzeErrorVisibility smartElements (Inr visibleErrors) (Inl e) = Inr 8
   \<and> analyzeVisualCapabilities (Inl e) images imagesWithAlt = Inr 5
   \<and> analyzeVisualCapabilities (Inr ()) (Inl e) imagesWithAlt = Inr 5
   \<and> analyzeVisualCapabilities (Inr ()) (Inr n) (Inl e) = Inr 5
   \<and> (sessions sid = Some (Inl e) \<and> sid \<noteq> [] \<longrightarrow>
        analyzeNetworkMonitoring (Some sid) sessions = Inr 3)
   \<and> (analyzeStateCapture (aio_stateCapabilities aio) = Inr stateScore
        \<and> analyzeErrorVisibility (aio_smartElements aio) (aio_visibleErrors aio)
             (aio_consoleErrors aio) = Inr errorScore
        \<and> analyzeVisualCapabilities (aio_screenshot aio) (aio_images aio)
             (aio_imagesWithAlt aio) = Inr visualScore
        \<and> analyzeNetworkMonitoring debugSessionId sessions = Inr networkScore
       \<longrightarrow> scoreAIObservability aio debugSessionId sessions
           = Inr (min 100 (0 + analyzeDataTestAttributes (se_dataTest (aio_smartElements aio))
                           + stateScore + errorScore + visualScore + networkScore
                           + calculateIntelligenceBonus (aio_smartElements aio))))"
proof (intro conjI impI)
  show "list_all (\<lambda>(principle, outcome). \<exists>s. outcome = Inr s)
          (analyze_all page debugSessionId)"
    by (rule analyze_all_returns)
  show "list_all (\<lambda>(principle, outcome). \<exists>s. outcome = Inr s)
          (score_all ai_page ai_debugSessionId)"
    by (rule score_all_returns)
  show "analyzeObservability obs debugSessionId sessions = Inr 20"
    if "obs_stateData obs = Inl e \<or> obs_dataTestElements obs = Inl e
        \<or> obs_errorElements obs = Inl e \<or> obs_visualElements obs = Inl e
        \<or> networkScore_of debugSessionId sessions = Inl e"
    using that by (rule analyzeObservability_fallback)
  show "analyzeControllability ctl = Inr 25"
    if "ctl_inputFields ctl = Inl e \<or> ctl_interactiveElements ctl = Inl e
        \<or> ctl_reload ctl = Inl e \<or> ctl_buttons ctl = Inl e \<or> ctl_links ctl = Inl e"
    using that by (rule analyzeControllability_fallback)
  show "analyzeControllability ctl
           = Inr (0 + 10 + min 25 (interactiveElements * 2) + (if same_url then 25 else 15)
                  + min 20 ((buttons + links) * (3 / 2)))"
    if "ctl_inputFields ctl = Inr inputFields_length \<and> 0 < inputFields_length
        \<and> ctl_fill_roundtrip ctl = Inl e
        \<and> ctl_interactiveElements ctl = Inr interactiveElements
        \<and> ctl_reload ctl = Inr same_url
        \<and> ctl_buttons ctl = Inr buttons \<and> ctl_links ctl = Inr links"
    using that analyzeControllability_fill_fails [of ctl inputFields_length e interactiveElements
        same_url buttons links]
    by blast
  show "analyzeAlgorithmicSimplicity sim = Inr 30"
    if "sim_totalElements sim = Inl e \<or> sim_forms sim = Inl e \<or> sim_buttons sim = Inl e
        \<or> sim_headings sim = Inl e \<or> sim_navigation sim = Inl e"
    using that by (rule analyzeAlgorithmicSimplicity_fallback)
  show "analyzeAlgorithmicTransparency tra = Inr 35"
    if "tra_visibleFeedback tra = Inl e \<or> tra_labels tra = Inl e
        \<or> tra_tooltips tra = Inl e \<or> tra_consoleErrors tra = Inl e"
    using that by (rule analyzeAlgorithmicTransparency_fallback)
  show "analyzeAlgorithmicStability sta = Inr 40"
    if "sta_initialElementCount sta = Inl e \<or> sta_reload sta = Inl e
        \<or> sta_waitForPageReady sta = Inl e \<or> sta_reloadElementCount sta = Inl e
        \<or> sta_dataTestIds sta = Inl e \<or> sta_consistentElements sta = Inl e"
    using that by (rule analyzeAlgorithmicStability_fallback)
  show "analyzeExplainability expl = Inr 25"
    if "exp_semanticElements expl = Inl e \<or> exp_labeledInputs expl = Inl e
        \<or> exp_actualLabels expl = Inl e \<or> exp_altTexts expl = Inl e
        \<or> exp_totalImages expl = Inl e \<or> exp_ariaElements expl = Inl e"
    using that by (rule analyzeExplainability_fallback)
  show "analyzeUnbugginess unb = Inr 60"
    if "unb_jsErrors unb = Inl e \<or> unb_consoleErrors unb = Inl e
        \<or> unb_errorElements unb = Inl e \<or> unb_brokenImages unb = Inl e"
    using that by (rule analyzeUnbugginess_fallback)
  show "analyzeSmallness sma = Inr 45"
    if "sma_totalElements sma = Inl e \<or> sma_testableElements sma = Inl e
        \<or> sma_contentSize sma = Inl e"
    using that by (rule analyzeSmallness_fallback)
  show "analyzeDecomposability dcp = Inr 50"
    if "dec_containers dcp = Inl e \<or> dec_isolatedElements dcp = Inl e
        \<or> dec_forms dcp = Inl e \<or> dec_modules dcp = Inl e"
    using that by (rule analyzeDecomposability_fallback)
  show "analyzeSimilarity sml = Inr 55"
    if "sml_standardElements sml = Inl e \<or> sml_familiarTech sml = Inl e
        \<or> sml_conventions sml = Inl e"
    using that by (rule analyzeSimilarity_fallback)
  show "analyzeStateCapture (Inl e) = Inr 10"
    by (simp add: analyzeStateCapture_def await_def try_catch_def)
  show "analyzeErrorVisibility smartElements (Inl e) consoleErrors = Inr 8"
    by (simp add: analyzeErrorVisibility_def Let_def await_def try_catch_def)
  show "analyzeErrorVisibility smartElements (Inr visibleErrors) (Inl e) = Inr 8"
    by (simp add: analyzeErrorVisibility_def Let_def await_def try_catch_def)
  show "analyzeVisualCapabilities (Inl e) images imagesWithAlt = Inr 5"
    by (simp add: analyzeVisualCapabilities_def Let_def await_def try_catch_def)
  show "analyzeVisualCapabilities (Inr ()) (Inl e) imagesWithAlt = Inr 5"
    by (simp add: analyzeVisualCapabilities_def Let_def await_def try_catch_def)
  show "analyzeVisualCapabilities (Inr ()) (Inr n) (Inl e) = Inr 5"
    by (simp add: analyzeVisualCapabilities_def Let_def await_def try_catch_def)
  show "analyzeNetworkMonitoring (Some sid) sessions = Inr 3"
    if "sessions sid = Some (Inl e) \<and> sid \<noteq> []"
    using that by (simp add: analyzeNetworkMonitoring_def await_def try_catch_def)
  show "scoreAIObservability aio debugSessionId sessions
           = Inr (min 100 (0 + analyzeDataTestAttributes (se_dataTest (aio_smartElements aio))
                           + stateScore + errorScore + visualScore + networkScore
                           + calculateIntelligenceBonus (aio_smartElements aio)))"
    if "analyzeStateCapture (aio_stateCapabilities aio) = Inr stateScore
        \<and> analyzeErrorVisibility (aio_smartElements aio) (aio_visibleErrors aio)
             (aio_consoleErrors aio) = Inr errorScore
        \<and> analyzeVisualCapabilities (aio_screenshot aio) (aio_images aio)
             (aio_imagesWithAlt aio) = Inr visualScore
        \<and> analyzeNetworkMonitoring debugSessionId sessions = Inr networkScore"
    using that by (simp add: scoreAIObservability_parts)
qed

theorem scoring_never_throws_witness:
  "obs_visualElements visual_timeout_page = Inl (Error ''locator.count: Timeout 30000ms exceeded.'')
   \<and> analyzeObservability visual_timeout_page None (\<lambda>id. None) = Inr 20
   \<and> analyzeControllability
        ((pg_controllability inventory_page)
           \<lparr> ctl_links := Inl (Error ''locator.count: Timeout 30000ms exceeded.'') \<rparr>) = Inr 25
   \<and> analyzeControllability
        ((pg_controllability inventory_page)
           \<lparr> ctl_fill_roundtrip := Inl (Error ''locator.fill: Timeout 30000ms exceeded.'') \<rparr>)
      = Inr 80
   \<and> analyzeAlgorithmicSimplicity
        ((pg_algorithmicSimplicity inventory_page)
           \<lparr> sim_navigation := Inl (Error ''locator.count: Timeout 30000ms exceeded.'') \<rparr>)
      = Inr 30
   \<and> analyzeAlgorithmicTransparency
        ((pg_algorithmicTransparency inventory_page)
           \<lparr> tra_tooltips := Inl (Error ''locator.count: Timeout 30000ms exceeded.'') \<rparr>)
      = Inr 35
   \<and> analyzeAlgorithmicStability
        ((pg_algorithmicStability inventory_page)
           \<lparr> sta_consistentElements := Inl (Error ''locator.count: Timeout 30000ms exceeded.'') \<rparr>)
      = Inr 40
   \<and> analyzeExplainability
        ((pg_explainability inventory_page)
           \<lparr> exp_ariaElements := Inl (Error ''locator.count: Timeout 30000ms exceeded.'') \<rparr>)
      = Inr 25
   \<and> analyzeUnbugginess
        ((pg_unbugginess inventory_page)
           \<lparr> unb_errorElements := Inl (Error ''locator.count: Timeout 30000ms exceeded.'') \<rparr>)
      = Inr 60
   \<and> analyzeSmallness
        ((pg_smallness inventory_page)
           \<lparr> sma_testableElements := Inl (Error ''locator.count: Timeout 30000ms exceeded.'') \<rparr>)
      = Inr 45
   \<and> analyzeDecomposability
        ((pg_decomposability inventory_page)
           \<lparr> dec_modules := Inl (Error ''locator.count: Timeout 30000ms exceeded.'') \<rparr>)
      = Inr 50
   \<and> analyzeSimilarity
        ((pg_similarity inventory_page)
           \<lparr> sml_conventions := Inl (Error ''page.evaluate: Target closed'') \<rparr>)
      = Inr 55
   \<and> analyzeNetworkMonitoring (Some ''session-1'') (\<lambda>id. Some (Inl (Error ''no requests'')))
       = Inr 3
   \<and> scoreAIObservability (ap_observability sparse_ai_page) None (\<lambda>id. None) = Inr 33"
proof -
  note inst = scoring_never_throws
    [where obs = visual_timeout_page and debugSessionId = None
       and sessions = "\<lambda>id. None"
       and e = "Error ''locator.count: Timeout 30000ms exceeded.''"
       and ctl = "(pg_controllability inventory_page)
           \<lparr> ctl_links := Inl (Error ''locator.count: Timeout 30000ms exceeded.'') \<rparr>"
       and sim = "(pg_algorithmicSimplicity inventory_page)
           \<lparr> sim_navigation := Inl (Error ''locator.count: Timeout 30000ms exceeded.'') \<rparr>"
       and tra = "(pg_algorithmicTransparency inventory_page)
           \<lparr> tra_tooltips := Inl (Error ''locator.count: Timeout 30000ms exceeded.'') \<rparr>"
       and sta = "(pg_algorithmicStability inventory_page)
           \<lparr> sta_consistentElements := Inl (Error ''locator.count: Timeout 30000ms exceeded.'') \<rparr>"
       and expl = "(pg_explainability inventory_page)
           \<lparr> exp_ariaElements := Inl (Error ''locator.count: Timeout 30000ms exceeded.'') \<rparr>"
       and unb = "(pg_unbugginess inventory_page)
           \<lparr> unb_errorElements := Inl (Error ''locator.count: Timeout 30000ms exceeded.'') \<rparr>"
       and sma = "(pg_smallness inventory_page)
           \<lparr> sma_testableElements := Inl (Error ''locator.count: Timeout 30000ms exceeded.'') \<rparr>"
       and dcp = "(pg_decomposability inventory_page)
           \<lparr> dec_modules := Inl (Error ''locator.count: Timeout 30000ms exceeded.'') \<rparr>"
       and aio = "ap_observability sparse_ai_page"
       and stateScore = 10 and errorScore = 5 and visualScore = 8 and networkScore = 5]
  have a: "analyzeObservability visual_timeout_page None (\<lambda>id. None) = Inr 20"
    using inst visual_timeout_page_fields by blast
  have b: "scoreAIObservability (ap_observability sparse_ai_page) None (\<lambda>id. None) = Inr 33"
    using inst sparse_observability_parts by simp
  have c: "analyzeNetworkMonitoring (Some ''session-1'')
        (\<lambda>id. Some (Inl (Error ''no requests''))) = Inr 3"
    using scoring_never_throws
      [where sessions = "\<lambda>id. Some (Inl (Error ''no requests''))" and sid = "''session-1''"
         and e = "Error ''no requests''"]
    by simp
  have ctl: "analyzeControllability
        ((pg_controllability inventory_page)
           \<lparr> ctl_links := Inl (Error ''locator.count: Timeout 30000ms exceeded.'') \<rparr>) = Inr 25"
    using inst by simp
  have sim: "analyzeAlgorithmicSimplicity
        ((pg_algorithmicSimplicity inventory_page)
           \<lparr> sim_navigation := Inl (Error ''locator.count: Timeout 30000ms exceeded.'') \<rparr>)
      = Inr 30"
    using inst by simp
  have tra: "analyzeAlgorithmicTransparency
        ((pg_algorithmicTransparency inventory_page)
           \<lparr> tra_tooltips := Inl (Error ''locator.count: Timeout 30000ms exceeded.'') \<rparr>)
      = Inr 35"
    using inst by simp
  have sta: "analyzeAlgorithmicStability
        ((pg_algorithmicStability inventory_page)
           \<lparr> sta_consistentElements := Inl (Error ''locator.count: Timeout 30000ms exceeded.'') \<rparr>)
      = Inr 40"
    using inst by simp
  have expl: "analyzeExplainability
        ((pg_explainability inventory_page)
           \<lparr> exp_ariaElements := Inl (Error ''locator.count: Timeout 30000ms exceeded.'') \<rparr>)
      = Inr 25"
    using inst by simp
  have unb: "analyzeUnbugginess
        ((pg_unbugginess inventory_page)
           \<lparr> unb_errorElements := Inl (Error ''locator.count: Timeout 30000ms exceeded.'') \<rparr>)
      = Inr 60"
    using inst by simp
  have sma: "analyzeSmallness
        ((pg_smallness inventory_page)
           \<lparr> sma_testableElements := Inl (Error ''locator.count: Timeout 30000ms exceeded.'') \<rparr>)
      = Inr 45"
    using inst by simp
  have dcp: "analyzeDecomposability
        ((pg_decomposability inventory_page)
           \<lparr> dec_modules := Inl (Error ''locator.count: Timeout 30000ms exceeded.'') \<rparr>)
      = Inr 50"
    using inst by simp
  have sml: "analyzeSimilarity
        ((pg_similarity inventory_page)
           \<lparr> sml_conventions := Inl (Error ''page.evaluate: Target closed'') \<rparr>)
      = Inr 55"
    using scoring_never_throws
      [where sml = "(pg_similarity inventory_page)
           \<lparr> sml_conventions := Inl (Error ''page.evaluate: Target closed'') \<rparr>"
         and e = "Error ''page.evaluate: Target closed''"]
    by simp
  have fill: "analyzeControllability
        ((pg_controllability inventory_page)
           \<lparr> ctl_fill_roundtrip := Inl (Error ''locator.fill: Timeout 30000ms exceeded.'') \<rparr>)
      = Inr 80"
    using scoring_never_throws
      [where ctl = "(pg_controllability inventory_page)
           \<lparr> ctl_fill_roundtrip := Inl (Error ''locator.fill: Timeout 30000ms exceeded.'') \<rparr>"
         and e = "Error ''locator.fill: Timeout 30000ms exceeded.''"
         and inputFields_length = 1 and interactiveElements = 20 and same_url = True
         and buttons = 9 and links = 10]
    by (simp add: inventory_page_def)
  show ?thesis
    using a b c ctl fill sim tra sta expl unb sma dcp sml visual_timeout_page_fields
    by simp
qed

text \<open>
  The sentence of the specification replaces only the failing part by its worst value and keeps the
  rest.  On the inventory page the observability score is 75, of which the visual
  elements give 15; when their count times out the score is not 60 but the fallback, 20.
  Nor is 20 the worst score: the bare page, where every query succeeds, scores 15.
\<close>

theorem fallback_counterexample:
  "analyzeObservability (pg_observability inventory_page) (Some ''session-1'')
      (pg_debugSessions inventory_page) = Inr 75
   \<and> analyzeObservability visual_timeout_page (Some ''session-1'')
      (pg_debugSessions inventory_page) = Inr 20
   \<and> analyzeObservability bare_observability_page None (\<lambda>id. None) = Inr 15"
  by (simp add: analyzeObservability_def analyzeObservability_body_def networkScore_of_def
      inventory_page_def visual_timeout_page_def bare_observability_page_def try_catch_def
      await_def Math_floor_def)

section \<open>The overall score of the AI scorer\<close>

lemma others_untouched_shape:
  assumes "others_untouched principleScores"
  shows "\<exists>obs ctl sim expl dec. principleScores = ai_scores_object obs ctl sim expl dec"
  using assms
  unfolding others_untouched_def initial_principles_def principleNames_def assessed_def
    ai_scores_object_def
  by (auto simp: map_eq_Cons_conv split: if_splits)

lemma others_untouched_object: "others_untouched (ai_scores_object obs ctl sim expl dec)"
  by (simp add: others_untouched_def initial_principles_def principleNames_def assessed_def
      ai_scores_object_def)

lemma score_all_shape:
  "\<exists>obs ctl sim.
     score_all page debugSessionId
     = [(''observability'', Inr obs), (''controllability'', Inr ctl),
        (''algorithmicSimplicity'', Inr sim), (''explainability'', Inr 78),
        (''decomposability'', Inr 82)]"
proof -
  obtain obs where "scoreAIObservability (ap_observability page) debugSessionId
      (ap_debugSessions page) = Inr obs"
    using scoreAIObservability_range by blast
  moreover obtain ctl where "scoreAIControllability (ap_controllability page) = Inr ctl"
    using scoreAIControllability_range by blast
  moreover obtain sim where "scoreAIAlgorithmicSimplicity (ap_complexity page) = Inr sim"
    using scoreAIAlgorithmicSimplicity_range by blast
  ultimately show ?thesis
    by (simp add: score_all_def scoreAIExplainability_value scoreAIDecomposability_value)
qed

lemma assign_five:
  "assign_scores (ai_scores_object obs0 ctl0 sim0 expl0 dec0)
     [(''observability'', Inr obs), (''controllability'', Inr ctl),
      (''algorithmicSimplicity'', Inr sim), (''explainability'', Inr expl),
      (''decomposability'', Inr dec)]
   = (None, ai_scores_object obs ctl sim expl dec)"
  by (simp add: ai_scores_object_def)

lemma overall_of_object:
  "calculateOverallScore (ai_scores_object obs ctl sim expl dec)
   = Some (Math_round ((obs + ctl + sim + expl + dec) / 10))"
  by (simp add: calculateOverallScore_def ai_scores_object_def Object_values_def
      reduce_sum_def Let_def)

lemma generateAIInsights_scores [simp]:
  "ai_principleScores (generateAIInsights this overallScore) = ai_principleScores this"
  by (simp add: generateAIInsights_def Let_def)

lemma rounded_tenth_le_50:
  assumes "x \<le> 500"
  shows "Math_round (x / 10) \<le> 50"
proof -
  have "x / 10 + 1 / 2 < 51"
    using assms by simp
  then have "\<lfloor>x / 10 + 1 / 2\<rfloor> < 51"
    by (simp add: floor_less_iff)
  then show ?thesis
    by (simp add: Math_round_def)
qed

text \<open>
  C9.  A completed run of \<^verbatim>\<open>runAIAssessment\<close>, on a scorer whose five other
  principle scores are as the constructor made them, leaves them at 0 and assigns the
  five scores that its scorers return.  The overall score is the rounding of the sum of
  these five divided by 10, the number of fields of the object; it is at most 50 when
  none of the five exceeds 100.  The five other scores are again untouched after the
  run.
\<close>

theorem ai_overall_score_over_ten_fields:
  assumes "others_untouched (ai_principleScores this)"
    and "runAIAssessment this page userType = (AICompleted result, this')"
  shows "\<exists>debugSessionId obs ctl sim expl dec.
           ap_startDebugSession page = Inr debugSessionId
         \<and> score_all page debugSessionId
             = [(''observability'', Inr obs), (''controllability'', Inr ctl),
                (''algorithmicSimplicity'', Inr sim), (''explainability'', Inr expl),
                (''decomposability'', Inr dec)]
         \<and> air_principleScores result = ai_scores_object obs ctl sim expl dec
         \<and> air_overallScore result = Some (Math_round ((obs + ctl + sim + expl + dec) / 10))
         \<and> (obs \<le> 100 \<and> ctl \<le> 100 \<and> sim \<le> 100 \<and> expl \<le> 100 \<and> dec \<le> 100
              \<longrightarrow> Math_round ((obs + ctl + sim + expl + dec) / 10) \<le> 50)
         \<and> others_untouched (ai_principleScores this')"
proof -
  obtain obs0 ctl0 sim0 expl0 dec0
    where before: "ai_principleScores this = ai_scores_object obs0 ctl0 sim0 expl0 dec0"
    using others_untouched_shape [OF assms(1)] by blast
  obtain debugSessionId where start: "ap_startDebugSession page = Inr debugSessionId"
    using assms(2) by (cases "ap_startDebugSession page") (simp_all add: runAIAssessment_def)
  obtain obs ctl sim
    where scores: "score_all page debugSessionId
             = [(''observability'', Inr obs), (''controllability'', Inr ctl),
                (''algorithmicSimplicity'', Inr sim), (''explainability'', Inr 78),
                (''decomposability'', Inr 82)]"
    using score_all_shape by blast
  have assigned: "assign_scores (ai_principleScores this) (score_all page debugSessionId)
                  = (None, ai_scores_object obs ctl sim 78 82)"
    unfolding before scores by (rule assign_five)
  from assms(2) have result:
    "air_principleScores result = ai_scores_object obs ctl sim 78 82"
    "air_overallScore result = calculateOverallScore (ai_scores_object obs ctl sim 78 82)"
    "ai_principleScores this' = ai_scores_object obs ctl sim 78 82"
    unfolding runAIAssessment_def start
    by (auto simp: assigned Let_def split: sum.splits if_splits)
  have bound: "Math_round ((obs + ctl + sim + 78 + 82) / 10) \<le> 50"
    if "obs \<le> 100 \<and> ctl \<le> 100 \<and> sim \<le> 100 \<and> (78 :: number) \<le> 100 \<and> (82 :: number) \<le> 100"
    using that by (intro rounded_tenth_le_50) simp
  show ?thesis
    using start scores result bound
    by (auto simp: overall_of_object others_untouched_object)
qed

section \<open>Two runs of the AI scorer on one page\<close>

lemma sparse_observability: 
  "scoreAIObservability (ap_observability sparse_ai_page) None (\<lambda>id. None) = Inr 33"
  using sparse_observability_parts by (simp add: scoreAIObservability_parts)

lemma sparse_controllability_page:
  "ap_controllability sparse_ai_page =
     \<lparr> aic_buttons = Inr 0, aic_inputs = Inr 3, aic_selects = Inr 0, aic_links = Inr 0,
       aic_interactive = Inr 2,
       aic_textInputs = Inr 2, aic_inputValue = Inr ''ai_precision_test_123'',
       aic_clear = Inr (), aic_requiredInputs = Inr 0, aic_typedInputs = Inr 1,
       aic_buttons_isEnabled = Inr [], aic_forms = Inr 1,
       aic_reload = Inr True, aic_elementCount1 = Inr 2, aic_waitForTimeout = Inr (),
       aic_elementCount2 = Inr 2 \<rparr>"
  by (simp add: sparse_ai_page_def)

lemma sparse_interactionPatterns:
  "analyzeInteractionPatterns (ap_controllability sparse_ai_page)
   = Inr \<lparr> ip_buttons = 0, ip_inputs = 3, ip_selects = 0, ip_links = 0, ip_interactive = 2,
           ip_total = 3 \<rparr>"
  unfolding sparse_controllability_page
  by (simp add: analyzeInteractionPatterns_def await_def Let_def)

lemma sparse_inputPrecision: "analyzeInputPrecision (ap_controllability sparse_ai_page) = Inr 25"
  unfolding sparse_controllability_page
  by (simp add: analyzeInputPrecision_def await_def try_catch_def Let_def)

lemma sparse_stateControl:
  "analyzeStateControl (ap_controllability sparse_ai_page)
     \<lparr> ip_buttons = 0, ip_inputs = 3, ip_selects = 0, ip_links = 0, ip_interactive = 2,
       ip_total = 3 \<rparr> = Inr 5"
  unfolding sparse_controllability_page
  by (simp add: analyzeStateControl_def await_def try_catch_def Let_def)

lemma sparse_determinism: "analyzeDeterminism (ap_controllability sparse_ai_page) = Inr 20"
  unfolding sparse_controllability_page
  by (simp add: analyzeDeterminism_def await_def try_catch_def Let_def)

lemma sparse_controllability:
  "scoreAIControllability (ap_controllability sparse_ai_page) = Inr 68"
  by (simp add: scoreAIControllability_def sparse_interactionPatterns sparse_inputPrecision
      sparse_stateControl sparse_determinism analyzeInteractionReliability_def
      analyzeAccessibilityIntegration_def Let_def await_def try_catch_def)

lemma sparse_complexity:
  "ap_complexity sparse_ai_page =
     Inr \<lparr> cm_totalElements = 50, cm_divElements = 10, cm_nestedLevels = 8,
           cm_scriptTags = 3, cm_styleTags = 2 \<rparr>"
  by (simp add: sparse_ai_page_def)

lemma sparse_analyzeComplexity:
  "analyzeComplexity (ap_complexity sparse_ai_page) = ap_complexity sparse_ai_page"
  unfolding sparse_complexity by (simp add: analyzeComplexity_def await_def try_catch_def)

lemma sparse_DOMComplexity:
  "analyzeDOMComplexity \<lparr> cm_totalElements = 50, cm_divElements = 10, cm_nestedLevels = 8,
      cm_scriptTags = 3, cm_styleTags = 2 \<rparr> = 40"
  by (simp add: analyzeDOMComplexity_def ratio_exceeds_def Let_def)

lemma sparse_predictability:
  "analyzePredictability \<lparr> cm_totalElements = 50, cm_divElements = 10, cm_nestedLevels = 8,
      cm_scriptTags = 3, cm_styleTags = 2 \<rparr> = 10"
  by (simp add: analyzePredictability_def Let_def)

lemma sparse_simplicity:
  "scoreAIAlgorithmicSimplicity (ap_complexity sparse_ai_page) = Inr 85"
  unfolding scoreAIAlgorithmicSimplicity_def sparse_analyzeComplexity
  unfolding sparse_complexity
  by (simp add: sparse_DOMComplexity sparse_predictability
      analyzeInteractionPatternSimplicity_def analyzeSemanticStructure_def Let_def await_def
      try_catch_def)

lemma sparse_page_steps:
  "ap_startDebugSession sparse_ai_page = Inr None" "ap_login sparse_ai_page = Inr ()"
  "ap_loginSuccess sparse_ai_page" "ap_endDebugSession sparse_ai_page = Inr ()"
  "ap_debugSessions sparse_ai_page = (\<lambda>id. None)"
  by (simp_all add: sparse_ai_page_def)

lemma sparse_score_all:
  "score_all sparse_ai_page None
   = [(''observability'', Inr 33), (''controllability'', Inr 68),
      (''algorithmicSimplicity'', Inr 85), (''explainability'', Inr 78),
      (''decomposability'', Inr 82)]"
  by (simp add: score_all_def sparse_page_steps sparse_observability sparse_controllability
      sparse_simplicity scoreAIExplainability_value scoreAIDecomposability_value)

lemma sparse_overall: "calculateOverallScore (ai_scores_object 33 68 85 78 82) = Some 35"
  by (simp add: overall_of_object Math_round_iff)

lemma sparse_insights:
  "ai_principleScores this = ai_scores_object 33 68 85 78 82 \<Longrightarrow>
   ai_improvementSuggestions (generateAIInsights this (Some 35))
   = ai_improvementSuggestions this @ [observability_suggestion, controllability_suggestion]"
  by (simp add: generateAIInsights_def ai_scores_object_def observability_suggestion_def
      controllability_suggestion_def Let_def)

lemma sparse_run:
  assumes "ai_principleScores this = ai_scores_object obs0 ctl0 sim0 expl0 dec0"
    and "ai_timestamp this = ''2025-01-01T00:00:00.000Z''"
  shows "fst (runAIAssessment this sparse_ai_page ''standard_user'')
         = AICompleted (sparse_result (ai_improvementSuggestions this
             @ [observability_suggestion, controllability_suggestion]))"
    and "ai_principleScores (snd (runAIAssessment this sparse_ai_page ''standard_user''))
         = ai_scores_object 33 68 85 78 82"
    and "ai_timestamp (snd (runAIAssessment this sparse_ai_page ''standard_user''))
         = ''2025-01-01T00:00:00.000Z''"
    and "ai_improvementSuggestions (snd (runAIAssessment this sparse_ai_page ''standard_user''))
         = ai_improvementSuggestions this
             @ [observability_suggestion, controllability_suggestion]"
proof -
  have assigned: "assign_scores (ai_principleScores this) (score_all sparse_ai_page None)
                  = (None, ai_scores_object 33 68 85 78 82)"
    unfolding assms(1) sparse_score_all by (rule assign_five)
  have insights: "ai_improvementSuggestions
        (generateAIInsights (this\<lparr>ai_principleScores := ai_scores_object 33 68 85 78 82\<rparr>)
           (Some 35))
      = ai_improvementSuggestions this @ [observability_suggestion, controllability_suggestion]"
    using sparse_insights [of "this\<lparr>ai_principleScores := ai_scores_object 33 68 85 78 82\<rparr>"]
    by simp
  have stamp: "ai_timestamp
        (generateAIInsights (this\<lparr>ai_principleScores := ai_scores_object 33 68 85 78 82\<rparr>)
           (Some 35)) = ''2025-01-01T00:00:00.000Z''"
    using assms(2) by (simp add: generateAIInsights_def Let_def)
  have grade: "getAIGrade_of (Some 35) = ''F (Not AI-Ready)''"
    by (simp add: getAIGrade_of_def getAIGrade_def)
  show "fst (runAIAssessment this sparse_ai_page ''standard_user'')
         = AICompleted (sparse_result (ai_improvementSuggestions this
             @ [observability_suggestion, controllability_suggestion]))"
    by (simp add: runAIAssessment_def sparse_page_steps assigned sparse_overall Let_def
        insights stamp grade sparse_result_def)
  show "ai_principleScores (snd (runAIAssessment this sparse_ai_page ''standard_user''))
         = ai_scores_object 33 68 85 78 82"
    by (simp add: runAIAssessment_def sparse_page_steps assigned sparse_overall Let_def)
  show "ai_timestamp (snd (runAIAssessment this sparse_ai_page ''standard_user''))
         = ''2025-01-01T00:00:00.000Z''"
    by (simp add: runAIAssessment_def sparse_page_steps assigned sparse_overall Let_def stamp)
  show "ai_improvementSuggestions (snd (runAIAssessment this sparse_ai_page ''standard_user''))
         = ai_improvementSuggestions this
             @ [observability_suggestion, controllability_suggestion]"
    by (simp add: runAIAssessment_def sparse_page_steps assigned sparse_overall Let_def
        insights)
qed

lemma fresh_ai_scorer_fields:
  "ai_principleScores fresh_ai_scorer = ai_scores_object 0 0 0 0 0"
  "ai_timestamp fresh_ai_scorer = ''2025-01-01T00:00:00.000Z''"
  "ai_improvementSuggestions fresh_ai_scorer = []"
  by (simp_all add: fresh_ai_scorer_def new_ai_scorer_def initial_principles_def
      principleNames_def ai_scores_object_def)

lemma first_ai_run_result:
  "fst first_ai_run
   = AICompleted (sparse_result [observability_suggestion, controllability_suggestion])"
  unfolding first_ai_run_def
  using sparse_run(1) [OF fresh_ai_scorer_fields(1,2)] by (simp add: fresh_ai_scorer_fields)

text \<open>
  C8.  The AI scorer keeps its suggestions from one run to the next.  A fresh scorer run
  twice on the sparse page returns the same principle scores, overall score and grade
  both times, and two recommendations the first time but four the second time: the two
  of the first run and the same two again.
\<close>

theorem ai_second_run_repeats_suggestions:
  "fst first_ai_run
     = AICompleted (sparse_result [observability_suggestion, controllability_suggestion])
   \<and> fst second_ai_run
     = AICompleted (sparse_result [observability_suggestion, controllability_suggestion,
                                   observability_suggestion, controllability_suggestion])
   \<and> fst second_ai_run \<noteq> fst first_ai_run"
proof -
  have state: "ai_principleScores (snd first_ai_run) = ai_scores_object 33 68 85 78 82"
    "ai_timestamp (snd first_ai_run) = ''2025-01-01T00:00:00.000Z''"
    "ai_improvementSuggestions (snd first_ai_run)
     = [observability_suggestion, controllability_suggestion]"
    unfolding first_ai_run_def
    using sparse_run(2-4) [OF fresh_ai_scorer_fields(1,2)]
    by (simp_all add: fresh_ai_scorer_fields)
  have second: "fst second_ai_run
     = AICompleted (sparse_result [observability_suggestion, controllability_suggestion,
                                   observability_suggestion, controllability_suggestion])"
    unfolding second_ai_run_def
    using sparse_run(1) [OF state(1,2)] by (simp add: state)
  show ?thesis
    using first_ai_run_result second by (simp add: sparse_result_def)
qed

theorem ai_overall_score_over_ten_fields_witness:
  "others_untouched (ai_principleScores fresh_ai_scorer)
   \<and> fst first_ai_run
       = AICompleted (sparse_result [observability_suggestion, controllability_suggestion])
   \<and> air_overallScore (sparse_result [observability_suggestion, controllability_suggestion])
       = Some (Math_round ((33 + 68 + 85 + 78 + 82) / 10))
   \<and> Math_round ((33 + 68 + 85 + 78 + 82) / 10) = 35
   \<and> Math_round ((33 + 68 + 85 + 78 + 82) / 10) \<le> 50
   \<and> others_untouched (ai_principleScores (snd first_ai_run))"
proof -
  have untouched: "others_untouched (ai_principleScores fresh_ai_scorer)"
    by (simp add: fresh_ai_scorer_fields others_untouched_object)
  have run: "runAIAssessment fresh_ai_scorer sparse_ai_page ''standard_user''
             = (AICompleted (sparse_result [observability_suggestion, controllability_suggestion]),
                snd first_ai_run)"
    using first_ai_run_result by (simp add: first_ai_run_def prod_eq_iff)
  from ai_overall_score_over_ten_fields [OF untouched run]
  obtain debugSessionId obs ctl sim expl dec
    where "ap_startDebugSession sparse_ai_page = Inr debugSessionId"
      and "score_all sparse_ai_page debugSessionId
             = [(''observability'', Inr obs), (''controllability'', Inr ctl),
                (''algorithmicSimplicity'', Inr sim), (''explainability'', Inr expl),
                (''decomposability'', Inr dec)]"
      and overall: "air_overallScore
             (sparse_result [observability_suggestion, controllability_suggestion])
           = Some (Math_round ((obs + ctl + sim + expl + dec) / 10))"
      and bound: "obs \<le> 100 \<and> ctl \<le> 100 \<and> sim \<le> 100 \<and> expl \<le> 100 \<and> dec \<le> 100
              \<longrightarrow> Math_round ((obs + ctl + sim + expl + dec) / 10) \<le> 50"
      and after: "others_untouched (ai_principleScores (snd first_ai_run))"
    by blast
  then have vals: "obs = 33" "ctl = 68" "sim = 85" "expl = 78" "dec = 82"
    by (simp_all add: sparse_page_steps sparse_score_all)
  have "Math_round ((33 + 68 + 85 + 78 + 82) / 10) = 35"
    by (simp add: Math_round_iff)
  then show ?thesis
    using untouched first_ai_run_result overall bound after unfolding vals by simp
qed

section \<open>The assignments of a run\<close>

lemma assign_scores_returned:
  "list_all (\<lambda>(principle, outcome). \<exists>s. outcome = Inr s) xs
   \<Longrightarrow> \<exists>ps'. assign_scores ps xs = (None, ps')"
  by (induction ps xs rule: assign_scores.induct) auto

lemma assign_scores_other_key:
  "k \<notin> fst ` set xs \<Longrightarrow> assign_scores ps xs = (None, ps') \<Longrightarrow> map_of ps' k = map_of ps k"
  by (induction ps xs rule: assign_scores.induct) (auto simp: update_conv')

lemma assign_scores_map_of:
  "distinct (map fst xs) \<Longrightarrow> assign_scores ps xs = (None, ps') \<Longrightarrow> (k, Inr v) \<in> set xs
   \<Longrightarrow> map_of ps' k = Some v"
proof (induction ps xs rule: assign_scores.induct)
  case (1 principles)
  then show ?case by simp
next
  case (2 principles principle error rest)
  then show ?case by simp
next
  case (3 principles principle score rest)
  show ?case
  proof (cases "(k, Inr v) \<in> set rest")
    case True
    then show ?thesis
      using 3 by simp
  next
    case False
    then have same: "k = principle" "v = score"
      using "3.prems"(3) by auto
    then have "k \<notin> fst ` set rest"
      using "3.prems"(1) by auto
    then have "map_of ps' k = map_of (AList.update principle score principles) k"
      using "3.prems"(2) by (intro assign_scores_other_key) simp_all
    then show ?thesis
      using same by (simp add: update_conv')
  qed
qed

lemma assign_scores_fixpoint:
  "\<forall>(k, outcome) \<in> set xs. \<exists>v. outcome = Inr v \<and> map_of ps k = Some v
   \<Longrightarrow> assign_scores ps xs = (None, ps)"
  by (induction ps xs rule: assign_scores.induct) (auto simp: update_triv)

lemma assign_scores_again:
  assumes "distinct (map fst xs)"
    and "list_all (\<lambda>(principle, outcome). \<exists>s. outcome = Inr s) xs"
    and "assign_scores ps xs = (None, ps')"
  shows "assign_scores ps' xs = (None, ps')"
proof (rule assign_scores_fixpoint, clarify)
  fix k outcome
  assume entry: "(k, outcome) \<in> set xs"
  then obtain v where "outcome = Inr v"
    using assms(2) by (auto simp: list_all_iff)
  moreover from this have "map_of ps' k = Some v"
    using assign_scores_map_of [OF assms(1,3)] entry by simp
  ultimately show "\<exists>v. outcome = Inr v \<and> map_of ps' k = Some v"
    by simp
qed

lemma assign_scores_keys:
  "fst ` set xs \<subseteq> fst ` set ps \<Longrightarrow> map fst (snd (assign_scores ps xs)) = map fst ps"
  by (induction ps xs rule: assign_scores.induct) (auto simp: update_keys dom_update)

lemma analyze_all_keys: "map fst (analyze_all page debugSessionId) = principleNames"
  by (simp add: analyze_all_def principleNames_def)

text \<open>
  The map that \<^verbatim>\<open>runCompleteAnalysis\<close> aggregates is complete: a run on an
  analyzer whose score object is complete, as the constructor makes it, ends with a
  complete object, whose overall score, grade and recommendations the result holds.
\<close>

lemma runCompleteAnalysis_completed:
  assumes "runCompleteAnalysis this page userType = (Completed res, this')"
    and "complete_map (this_principles this)"
  shows "complete_map (res_principleScores res)
       \<and> res_overallScore res = overallScore_complete (res_principleScores res)
       \<and> res_grade res = getGrade (of_int (res_overallScore res))
       \<and> res_aiRecommendations res = generateAIRecommendations (res_principleScores res)
       \<and> this_principles this' = res_principleScores res"
proof -
  obtain debugSessionId where start: "pg_startDebugSession page = Inr debugSessionId"
    using assms(1) by (cases "pg_startDebugSession page") (simp_all add: runCompleteAnalysis_def)
  obtain ps' where assigned:
    "assign_scores (this_principles this) (analyze_all page debugSessionId) = (None, ps')"
    using assign_scores_returned [OF analyze_all_returns] by blast
  have "fst ` set (analyze_all page debugSessionId) \<subseteq> fst ` set (this_principles this)"
    using assms(2) analyze_all_keys [of page debugSessionId]
    by (metis complete_map_def Object_keys_def set_map subset_refl)
  then have "map fst ps' = map fst (this_principles this)"
    using assign_scores_keys [of "analyze_all page debugSessionId" "this_principles this"]
    by (simp add: assigned)
  then have complete: "complete_map ps'"
    using assms(2) by (simp add: complete_map_def Object_keys_def)
  from assms(1) have "res_principleScores res = ps'"
    "res_overallScore res = overallScore_complete ps'"
    "res_grade res = getGrade (of_int (overallScore_complete ps'))"
    "res_aiRecommendations res = generateAIRecommendations ps'"
    "this_principles this' = ps'"
    unfolding runCompleteAnalysis_def start
    by (auto simp: assigned Let_def split: sum.splits if_splits)
  with complete show ?thesis
    by simp
qed

text \<open>
  The comprehensive analyzer keeps nothing from one run to the next that a later run
  reads: run again on the same page, whatever the state it starts from, it returns the
  result of the first run.
\<close>

lemma runCompleteAnalysis_repeatable:
  "fst (runCompleteAnalysis (snd (runCompleteAnalysis this page userType)) page userType)
   = fst (runCompleteAnalysis this page userType)"
proof (cases "pg_startDebugSession page")
  case (Inl error)
  then show ?thesis
    by (simp add: runCompleteAnalysis_def)
next
  case (Inr debugSessionId)
  obtain ps' where assigned:
    "assign_scores (this_principles this) (analyze_all page debugSessionId) = (None, ps')"
    using assign_scores_returned [OF analyze_all_returns] by blast
  have "distinct (map fst (analyze_all page debugSessionId))"
    by (simp add: analyze_all_keys distinct_principleNames)
  then have again: "assign_scores ps' (analyze_all page debugSessionId) = (None, ps')"
    using analyze_all_returns assigned by (rule assign_scores_again)
  show ?thesis
    unfolding runCompleteAnalysis_def Inr
    by (auto simp: assigned again Let_def split: sum.splits)
qed

end
